theory Spec2Isabelle
  imports Complex_Main "HOL-Library.AList"
begin

section \<open>Constants and codec tables (const.py)\<close>

text \<open>
  Python \<open>str\<close> values are modelled as \<^typ>\<open>string\<close>. The human-readable names of
  const.py are Cyrillic; they are written as their UTF-8 bytes, which keeps the string
  comparisons of the source (equality only) exact.
\<close>

definition TEMP_MIN :: int where "TEMP_MIN = 16"
definition TEMP_MAX :: int where "TEMP_MAX = 30"
definition TEMP_STEP :: int where "TEMP_STEP = 1"
definition TEMP_DEFAULT :: int where "TEMP_DEFAULT = 22"

datatype topic_key = mode_in | mode_out | temp_out | temp_comfort_out | temp_comfort_in
  | fan_speed_out | fan_speed_in | backlight_out | backlight_in | connected_out

text \<open>
  \<open>MQTT_TOPICS[key].format(device_id=device_id)\<close>: every template is the device
  identifier followed by a fixed suffix.
\<close>

fun MQTT_TOPICS :: "topic_key \<Rightarrow> string \<Rightarrow> string" where
  "MQTT_TOPICS mode_in device_id = device_id @ ''/mode/in''"
| "MQTT_TOPICS mode_out device_id = device_id @ ''/mode/out''"
| "MQTT_TOPICS temp_out device_id = device_id @ ''/sensor/temperature/out''"
| "MQTT_TOPICS temp_comfort_out device_id = device_id @ ''/temperature_comfort/out''"
| "MQTT_TOPICS temp_comfort_in device_id = device_id @ ''/temperature_comfort/in''"
| "MQTT_TOPICS fan_speed_out device_id = device_id @ ''/power/out''"
| "MQTT_TOPICS fan_speed_in device_id = device_id @ ''/power/in''"
| "MQTT_TOPICS backlight_out device_id = device_id @ ''/backlight_auto/out''"
| "MQTT_TOPICS backlight_in device_id = device_id @ ''/backlight_auto/in''"
| "MQTT_TOPICS connected_out device_id = device_id @ ''/connected/out''"

definition CONNECTED_ONLINE :: string where "CONNECTED_ONLINE = ''1''"
definition CONNECTED_OFFLINE :: string where "CONNECTED_OFFLINE = ''0''"

text \<open>The human-readable names, as UTF-8 bytes.\<close>

definition name_off :: string where
  "name_off = [CHR 0xD0, CHR 0x92, CHR 0xD1, CHR 0x8B, CHR 0xD0, CHR 0xBA, CHR 0xD0, CHR 0xBB,
    CHR 0xD1, CHR 0x8E, CHR 0xD1, CHR 0x87, CHR 0xD0, CHR 0xB5, CHR 0xD0, CHR 0xBD, CHR 0xD0, CHR 0xBE]"
definition name_auto :: string where
  "name_auto = [CHR 0xD0, CHR 0x90, CHR 0xD0, CHR 0xB2, CHR 0xD1, CHR 0x82, CHR 0xD0, CHR 0xBE]"
definition name_cool :: string where
  "name_cool = [CHR 0xD0, CHR 0xA5, CHR 0xD0, CHR 0xBE, CHR 0xD0, CHR 0xBB, CHR 0xD0, CHR 0xBE,
    CHR 0xD0, CHR 0xB4]"
definition name_dry :: string where
  "name_dry = [CHR 0xD0, CHR 0x9E, CHR 0xD1, CHR 0x81, CHR 0xD1, CHR 0x83, CHR 0xD1, CHR 0x88,
    CHR 0xD0, CHR 0xB5, CHR 0xD0, CHR 0xBD, CHR 0xD0, CHR 0xB8, CHR 0xD0, CHR 0xB5]"
definition name_heat :: string where
  "name_heat = [CHR 0xD0, CHR 0xA2, CHR 0xD0, CHR 0xB5, CHR 0xD0, CHR 0xBF, CHR 0xD0, CHR 0xBB,
    CHR 0xD0, CHR 0xBE]"
definition name_fan_only :: string where
  "name_fan_only = [CHR 0xD0, CHR 0x92, CHR 0xD0, CHR 0xB5, CHR 0xD0, CHR 0xBD, CHR 0xD1, CHR 0x82,
    CHR 0xD0, CHR 0xB8, CHR 0xD0, CHR 0xBB, CHR 0xD1, CHR 0x8F, CHR 0xD1, CHR 0x86, CHR 0xD0, CHR 0xB8,
    CHR 0xD1, CHR 0x8F]"
definition name_low :: string where
  "name_low = [CHR 0xD0, CHR 0x9D, CHR 0xD0, CHR 0xB8, CHR 0xD0, CHR 0xB7, CHR 0xD0, CHR 0xBA,
    CHR 0xD0, CHR 0xB0, CHR 0xD1, CHR 0x8F]"
definition name_medium :: string where
  "name_medium = [CHR 0xD0, CHR 0xA1, CHR 0xD1, CHR 0x80, CHR 0xD0, CHR 0xB5, CHR 0xD0, CHR 0xB4,
    CHR 0xD0, CHR 0xBD, CHR 0xD1, CHR 0x8F, CHR 0xD1, CHR 0x8F]"
definition name_high :: string where
  "name_high = [CHR 0xD0, CHR 0x92, CHR 0xD1, CHR 0x8B, CHR 0xD1, CHR 0x81, CHR 0xD0, CHR 0xBE,
    CHR 0xD0, CHR 0xBA, CHR 0xD0, CHR 0xB0, CHR 0xD1, CHR 0x8F]"
definition name_swing_on :: string where
  "name_swing_on = [CHR 0xD0, CHR 0x92, CHR 0xD0, CHR 0xBA, CHR 0xD0, CHR 0xBB, CHR 0xD1, CHR 0x8E,
    CHR 0xD1, CHR 0x87, CHR 0xD0, CHR 0xB5, CHR 0xD0, CHR 0xBD, CHR 0xD1, CHR 0x8B]"
definition name_swing_off :: string where
  "name_swing_off = [CHR 0xD0, CHR 0x92, CHR 0xD1, CHR 0x8B, CHR 0xD0, CHR 0xBA, CHR 0xD0, CHR 0xBB,
    CHR 0xD1, CHR 0x8E, CHR 0xD1, CHR 0x87, CHR 0xD0, CHR 0xB5, CHR 0xD0, CHR 0xBD, CHR 0xD1, CHR 0x8B]"

text \<open>
  A Python \<open>dict\<close> is an association list in insertion order with unique keys. Storing
  a key (\<open>d[k] = v\<close>, and each step of a dict comprehension) replaces the value in place
  or appends the pair: this is \<^const>\<open>AList.update\<close>. \<open>d.get(k)\<close> and \<open>k in d\<close> read
  it with \<^const>\<open>map_of\<close>.
\<close>

definition dict_of :: "('k \<times> 'v) list \<Rightarrow> ('k \<times> 'v) list" where
  "dict_of kvs = foldl (\<lambda>d (k, v). AList.update k v d) [] kvs"

text \<open>Each table row is MQTT value, HA value, human name, icon.\<close>

type_synonym mapping_row = "string \<times> string \<times> string \<times> string"

definition MODE_MAPPING :: "mapping_row list" where
  "MODE_MAPPING =
    [(''0'', ''off'', name_off, ''mdi:power-off''),
     (''1'', ''auto'', name_auto, ''mdi:auto-mode''),
     (''2'', ''cool'', name_cool, ''mdi:snowflake''),
     (''3'', ''dry'', name_dry, ''mdi:water''),
     (''4'', ''heat'', name_heat, ''mdi:fire''),
     (''5'', ''fan_only'', name_fan_only, ''mdi:fan'')]"

definition MODE_SELECT_OPTIONS :: "(string \<times> string) list" where
  "MODE_SELECT_OPTIONS = dict_of (map (\<lambda>(mqtt_val, _, human_name, _). (mqtt_val, human_name)) MODE_MAPPING)"

definition MODE_SELECT_ICONS :: "(string \<times> string) list" where
  "MODE_SELECT_ICONS = dict_of (map (\<lambda>(mqtt_val, _, _, icon). (mqtt_val, icon)) MODE_MAPPING)"

definition HA_TO_MQTT_MODES :: "(string \<times> string) list" where
  "HA_TO_MQTT_MODES = dict_of (map (\<lambda>(mqtt_val, ha_mode, _, _). (ha_mode, mqtt_val)) MODE_MAPPING)"

definition MQTT_TO_HA_MODES :: "(string \<times> string) list" where
  "MQTT_TO_HA_MODES = dict_of (map (\<lambda>(mqtt_val, ha_mode, _, _). (mqtt_val, ha_mode)) MODE_MAPPING)"

definition FAN_SPEEDS :: "mapping_row list" where
  "FAN_SPEEDS =
    [(''0'', ''auto'', name_auto, ''mdi:fan-auto''),
     (''1'', ''low'', name_low, ''mdi:fan-speed-1''),
     (''2'', ''medium'', name_medium, ''mdi:fan-speed-2''),
     (''3'', ''high'', name_high, ''mdi:fan-speed-3'')]"

definition FAN_SELECT_OPTIONS :: "(string \<times> string) list" where
  "FAN_SELECT_OPTIONS = dict_of (map (\<lambda>(mqtt_val, _, human_name, _). (mqtt_val, human_name)) FAN_SPEEDS)"

definition FAN_SELECT_ICONS :: "(string \<times> string) list" where
  "FAN_SELECT_ICONS = dict_of (map (\<lambda>(mqtt_val, _, _, icon). (mqtt_val, icon)) FAN_SPEEDS)"

definition HA_TO_MQTT_FAN :: "(string \<times> string) list" where
  "HA_TO_MQTT_FAN = dict_of (map (\<lambda>(mqtt_val, ha_mode, _, _). (ha_mode, mqtt_val)) FAN_SPEEDS)"

definition MQTT_TO_HA_FAN :: "(string \<times> string) list" where
  "MQTT_TO_HA_FAN = dict_of (map (\<lambda>(mqtt_val, ha_mode, _, _). (mqtt_val, ha_mode)) FAN_SPEEDS)"

definition FAN_AUTO :: string where "FAN_AUTO = ''auto''"
definition FAN_LOW :: string where "FAN_LOW = ''low''"
definition FAN_MEDIUM :: string where "FAN_MEDIUM = ''medium''"
definition FAN_HIGH :: string where "FAN_HIGH = ''high''"

definition SWING_MODES :: "mapping_row list" where
  "SWING_MODES =
    [(''1'', ''on'', name_swing_on, ''mdi:blinds-horizontal''),
     (''0'', ''off'', name_swing_off, ''mdi:blinds-horizontal-closed'')]"

definition HA_TO_MQTT_SWING :: "(string \<times> string) list" where
  "HA_TO_MQTT_SWING = dict_of (map (\<lambda>(mqtt_val, ha_mode, _, _). (ha_mode, mqtt_val)) SWING_MODES)"

definition MQTT_TO_HA_SWING :: "(string \<times> string) list" where
  "MQTT_TO_HA_SWING = dict_of (map (\<lambda>(mqtt_val, ha_mode, _, _). (mqtt_val, ha_mode)) SWING_MODES)"

definition SWING_ON :: string where "SWING_ON = ''on''"
definition SWING_OFF :: string where "SWING_OFF = ''off''"
definition BLINDS_ON :: string where "BLINDS_ON = ''1''"
definition BLINDS_OFF :: string where "BLINDS_OFF = ''0''"

text \<open>
  The codec pairs of a table: the (wire code, domain value) pair of every row.
\<close>

definition codec_pairs :: "mapping_row list \<Rightarrow> (string \<times> string) list" where
  "codec_pairs table = map (\<lambda>(mqtt_val, ha_mode, _, _). (mqtt_val, ha_mode)) table"

section \<open>The availability manager (__init__.py)\<close>

text \<open>
  \<open>DeviceAvailabilityManager\<close>: the flag and the registered entities. The entities are
  kept abstract (\<open>'e\<close>). \<open>availability_received\<close> is the callback subscribed to the
  connectivity topic; the tasks it creates with \<open>hass.async_create_task\<close>, one
  \<open>entity.on_availability_changed(new_available)\<close> per registered entity, are returned in
  order beside the new state.
\<close>

record 'e DeviceAvailabilityManager =
  m_available :: bool
  m_entities :: "'e list"

text \<open>
  \<open>add_entity\<close> also sets the new entity's flag to the manager's; that assignment is
  \<open>register_with_availability_manager\<close> on the entity's side, below.
\<close>

definition add_entity :: "'e \<Rightarrow> 'e DeviceAvailabilityManager \<Rightarrow> 'e DeviceAvailabilityManager" where
  "add_entity entity m = m\<lparr>m_entities := m_entities m @ [entity]\<rparr>"

definition remove_entity :: "'e \<Rightarrow> 'e DeviceAvailabilityManager \<Rightarrow> 'e DeviceAvailabilityManager" where
  "remove_entity entity m =
    (if entity \<in> set (m_entities m) then m\<lparr>m_entities := remove1 entity (m_entities m)\<rparr> else m)"

definition availability_received ::
  "string \<Rightarrow> 'e DeviceAvailabilityManager \<Rightarrow> 'e DeviceAvailabilityManager \<times> ('e \<times> bool) list" where
  "availability_received payload m =
    (let new_available = (payload = CONNECTED_ONLINE) in
     if new_available \<noteq> m_available m
     then (m\<lparr>m_available := new_available\<rparr>, map (\<lambda>entity. (entity, new_available)) (m_entities m))
     else (m, []))"

section \<open>Python numbers\<close>

text \<open>
  A Python \<open>float\<close> is a finite real, an infinity or NaN; a Python \<open>int\<close> that flows
  into a float-valued attribute is the finite value it denotes. Comparison, \<open>min\<close>,
  \<open>max\<close> and \<open>round\<close> are exact on floats, so they are modelled on the reals.
  Exceptions are values of \<open>py_error\<close>.
\<close>

datatype py_float = Finite real | PosInf | NegInf | NaN

datatype py_error = ValueError | TypeError | OverflowError

fun py_less :: "py_float \<Rightarrow> py_float \<Rightarrow> bool" where
  "py_less (Finite a) (Finite b) = (a < b)"
| "py_less (Finite a) PosInf = True"
| "py_less NegInf (Finite b) = True"
| "py_less NegInf PosInf = True"
| "py_less _ _ = False"

text \<open>
  \<open>min(a, b)\<close> and \<open>max(a, b)\<close> keep the first argument unless the second is strictly
  smaller (larger); a comparison with NaN is false.
\<close>

definition py_min :: "py_float \<Rightarrow> py_float \<Rightarrow> py_float" where
  "py_min a b = (if py_less b a then b else a)"

definition py_max :: "py_float \<Rightarrow> py_float \<Rightarrow> py_float" where
  "py_max a b = (if py_less a b then b else a)"

text \<open>\<open>round(x)\<close> rounds to the nearest integer, a tie to the even one.\<close>

definition py_round :: "real \<Rightarrow> int" where
  "py_round x =
    (let f = \<lfloor>x\<rfloor>; d = x - of_int f in
     if d < 1 / 2 then f else if 1 / 2 < d then f + 1 else if even f then f else f + 1)"

text \<open>
  \<open>int(round(x))\<close>: \<open>round\<close> raises OverflowError on an infinity and ValueError on
  NaN.
\<close>

fun int_round :: "py_float \<Rightarrow> py_error + int" where
  "int_round (Finite r) = Inr (py_round r)"
| "int_round PosInf = Inl OverflowError"
| "int_round NegInf = Inl OverflowError"
| "int_round NaN = Inl ValueError"

text \<open>\<open>str(n)\<close> of an int: its decimal digits, with a minus sign when negative.\<close>

definition digit_char :: "nat \<Rightarrow> char" where
  "digit_char d = char_of (48 + d)"

function str_nat :: "nat \<Rightarrow> string" where
  "str_nat n = (if n < 10 then [digit_char n] else str_nat (n div 10) @ [digit_char (n mod 10)])"
  by pat_completeness auto
termination
  by (relation "measure id") auto

definition str_int :: "int \<Rightarrow> string" where
  "str_int i = (if i < 0 then CHR ''-'' # str_nat (nat (- i)) else str_nat (nat i))"

subsection \<open>The builtin \<open>float\<close> on strings\<close>

text \<open>
  The handlers below take Python's \<open>float(payload)\<close> as a parameter
  \<open>float_of :: string \<Rightarrow> py_error + py_float\<close>, so what is proved of them holds for
  whatever the builtin returns. \<open>float_of_ascii\<close> is the builtin on ASCII strings, after
  the grammar of the language reference: surrounding whitespace is stripped, then an
  optional sign and \<open>inf\<close>, \<open>infinity\<close>, \<open>nan\<close> (in any case) or a decimal number with
  optional fraction and exponent, digits grouped by single underscores. A value is the
  exact value of the decimal (the rounding of a decimal that is not a binary fraction
  to the nearest double is not modelled); a magnitude that rounds beyond the largest
  double is an infinity.
\<close>

definition is_space :: "char \<Rightarrow> bool" where
  "is_space c = (let n = (of_char c :: nat) in (9 \<le> n \<and> n \<le> 13) \<or> (28 \<le> n \<and> n \<le> 32))"

definition is_digit :: "char \<Rightarrow> bool" where
  "is_digit c = (let n = (of_char c :: nat) in 48 \<le> n \<and> n \<le> 57)"

definition digit_value :: "char \<Rightarrow> nat" where
  "digit_value c = of_char c - 48"

definition lower :: "char \<Rightarrow> char" where
  "lower c = (let n = (of_char c :: nat) in if 65 \<le> n \<and> n \<le> 90 then char_of (n + 32) else c)"

definition strip :: "string \<Rightarrow> string" where
  "strip s = rev (dropWhile is_space (rev (dropWhile is_space s)))"

fun digitpart :: "string \<Rightarrow> nat list option" where
  "digitpart [] = None"
| "digitpart [c] = (if is_digit c then Some [digit_value c] else None)"
| "digitpart (c # d # cs) =
    (if is_digit c
     then map_option (Cons (digit_value c)) (if d = CHR ''_'' then digitpart cs else digitpart (d # cs))
     else None)"

definition nat_of_digits :: "nat list \<Rightarrow> nat" where
  "nat_of_digits ds = foldl (\<lambda>a d. 10 * a + d) 0 ds"

text \<open>
  \<open>number\<close>: the digits of the integer and fraction parts read as one natural number,
  and the number of fraction digits.
\<close>

definition number_part :: "string \<Rightarrow> (nat \<times> nat) option" where
  "number_part s =
    (let ip = takeWhile (\<lambda>c. c \<noteq> CHR ''.'') s; rest = dropWhile (\<lambda>c. c \<noteq> CHR ''.'') s in
     if rest = [] \<or> tl rest = [] then map_option (\<lambda>ds. (nat_of_digits ds, 0)) (digitpart ip)
     else (case digitpart (tl rest) of
             None \<Rightarrow> None
           | Some fs \<Rightarrow>
               if ip = [] then Some (nat_of_digits fs, length fs)
               else map_option (\<lambda>ds. (nat_of_digits (ds @ fs), length fs)) (digitpart ip)))"

definition exponent_part :: "string \<Rightarrow> int option" where
  "exponent_part s =
    (case s of
       [] \<Rightarrow> None
     | c # cs \<Rightarrow>
         if c = CHR ''-'' then map_option (\<lambda>ds. - int (nat_of_digits ds)) (digitpart cs)
         else if c = CHR ''+'' then map_option (\<lambda>ds. int (nat_of_digits ds)) (digitpart cs)
         else map_option (\<lambda>ds. int (nat_of_digits ds)) (digitpart s))"

definition is_e :: "char \<Rightarrow> bool" where
  "is_e c = (c = CHR ''e'' \<or> c = CHR ''E'')"

definition floatnumber :: "string \<Rightarrow> real option" where
  "floatnumber s =
    (let m = takeWhile (\<lambda>c. \<not> is_e c) s; rest = dropWhile (\<lambda>c. \<not> is_e c) s in
     case number_part m of
       None \<Rightarrow> None
     | Some (n, k) \<Rightarrow>
         if rest = [] then Some (real n / 10 ^ k)
         else map_option (\<lambda>e. real n / 10 ^ k * 10 powi e) (exponent_part (tl rest)))"

definition absfloatvalue :: "string \<Rightarrow> py_float option" where
  "absfloatvalue s =
    (if map lower s = ''inf'' \<or> map lower s = ''infinity'' then Some PosInf
     else if map lower s = ''nan'' then Some NaN
     else map_option (\<lambda>v. if 2 ^ 1024 - 2 ^ 970 \<le> v then PosInf else Finite v) (floatnumber s))"

fun py_neg :: "py_float \<Rightarrow> py_float" where
  "py_neg (Finite r) = Finite (- r)"
| "py_neg PosInf = NegInf"
| "py_neg NegInf = PosInf"
| "py_neg NaN = NaN"

definition float_of_ascii :: "string \<Rightarrow> py_error + py_float" where
  "float_of_ascii payload =
    (let s = strip payload;
         neg = (s \<noteq> [] \<and> hd s = CHR ''-'');
         body = (if s \<noteq> [] \<and> (hd s = CHR ''-'' \<or> hd s = CHR ''+'') then tl s else s)
     in case absfloatvalue body of
          None \<Rightarrow> Inl ValueError
        | Some v \<Rightarrow> Inr (if neg then py_neg v else v))"

section \<open>Effects and the base entity (base.py)\<close>

text \<open>
  A handler or command is a function from the entity's state to the new state and the
  effects it had on the outside, in order: MQTT publishes (topic, payload, qos, retain),
  subscriptions, cancelled subscriptions, state writes to Home Assistant and tasks handed
  to the event loop. A subscription handle (the unsubscribe callback that
  \<open>mqtt.async_subscribe\<close> returns) is identified by its topic. Every coroutine is taken
  as one uninterrupted step; a publish is taken to succeed; logging is left out.
\<close>

datatype task = correct_fan_speed_for_mode_task

datatype effect =
    Publish string string nat bool
  | Subscribe string nat
  | Unsubscribe string
  | WriteState
  | CreateTask task

record GSACBaseEntity =
  device_id :: string
  available :: bool
  entity_ready :: bool
  entity_id :: "string option"
  mqtt_subscriptions :: "string list"

text \<open>
  The entity's half of the registration: its flag starts as the manager's current
  value, and stays as constructed when the integration has no manager.
\<close>

definition register_with_availability_manager ::
  "'e DeviceAvailabilityManager option \<Rightarrow> 'a GSACBaseEntity_scheme \<Rightarrow> 'a GSACBaseEntity_scheme" where
  "register_with_availability_manager manager s =
    (case manager of None \<Rightarrow> s | Some m \<Rightarrow> s\<lparr>available := m_available m\<rparr>)"

definition and_then :: "'s \<times> effect list \<Rightarrow> ('s \<Rightarrow> 's \<times> effect list) \<Rightarrow> 's \<times> effect list" where
  "and_then r f = (case r of (s, es) \<Rightarrow> (case f s of (s', es') \<Rightarrow> (s', es @ es')))"

definition safe_async_write_ha_state :: "'a GSACBaseEntity_scheme \<Rightarrow> effect list" where
  "safe_async_write_ha_state s = (if entity_ready s \<and> entity_id s \<noteq> None then [WriteState] else [])"

definition unsubscribe_mqtt :: "'a GSACBaseEntity_scheme \<Rightarrow> 'a GSACBaseEntity_scheme \<times> effect list" where
  "unsubscribe_mqtt s = (s\<lparr>mqtt_subscriptions := []\<rparr>, map Unsubscribe (mqtt_subscriptions s))"

text \<open>
  \<open>unsubscribe = await mqtt.async_subscribe(hass, topic, handler, qos)\<close> followed by
  \<open>self._add_mqtt_subscription(unsubscribe)\<close>.
\<close>

definition subscribe :: "string \<Rightarrow> nat \<Rightarrow> 'a GSACBaseEntity_scheme \<Rightarrow> 'a GSACBaseEntity_scheme \<times> effect list" where
  "subscribe topic qos s = (s\<lparr>mqtt_subscriptions := mqtt_subscriptions s @ [topic]\<rparr>, [Subscribe topic qos])"

text \<open>
  \<open>on_availability_changed\<close>, with the two hooks a subclass overrides
  (\<open>_setup_mqtt_subscriptions\<close>, \<open>_reset_state\<close>) as arguments.
\<close>

definition on_availability_changed ::
  "('a GSACBaseEntity_scheme \<Rightarrow> 'a GSACBaseEntity_scheme \<times> effect list) \<Rightarrow>
   ('a GSACBaseEntity_scheme \<Rightarrow> 'a GSACBaseEntity_scheme) \<Rightarrow>
   bool \<Rightarrow> 'a GSACBaseEntity_scheme \<Rightarrow> 'a GSACBaseEntity_scheme \<times> effect list" where
  "on_availability_changed setup_mqtt_subscriptions reset_state new_available s =
    (if available s = new_available then (s, [])
     else
       and_then
         (if new_available then setup_mqtt_subscriptions (s\<lparr>available := new_available\<rparr>)
          else and_then (unsubscribe_mqtt (s\<lparr>available := new_available\<rparr>)) (\<lambda>s'. (reset_state s', [])))
         (\<lambda>s'. (s', safe_async_write_ha_state s')))"

definition async_added_to_hass ::
  "('a GSACBaseEntity_scheme \<Rightarrow> 'a GSACBaseEntity_scheme \<times> effect list) \<Rightarrow>
   'a GSACBaseEntity_scheme \<Rightarrow> 'a GSACBaseEntity_scheme \<times> effect list" where
  "async_added_to_hass setup_mqtt_subscriptions s =
    (if available s then setup_mqtt_subscriptions (s\<lparr>entity_ready := True\<rparr>)
     else (s\<lparr>entity_ready := True\<rparr>, []))"

section \<open>The climate entity (climate.py)\<close>

datatype HVACMode = OFF | HEAT | COOL | HEAT_COOL | AUTO | DRY | FAN_ONLY

fun HVACMode_value :: "HVACMode \<Rightarrow> string" where
  "HVACMode_value OFF = ''off''"
| "HVACMode_value HEAT = ''heat''"
| "HVACMode_value COOL = ''cool''"
| "HVACMode_value HEAT_COOL = ''heat_cool''"
| "HVACMode_value AUTO = ''auto''"
| "HVACMode_value DRY = ''dry''"
| "HVACMode_value FAN_ONLY = ''fan_only''"

datatype HVACAction = ACTION_COOLING | ACTION_DEFROSTING | ACTION_DRYING | ACTION_FAN
  | ACTION_HEATING | ACTION_IDLE | ACTION_OFF | ACTION_PREHEATING

definition MQTT_TO_HVAC_MODE :: "(string \<times> HVACMode) list" where
  "MQTT_TO_HVAC_MODE =
    [(''0'', OFF), (''1'', AUTO), (''2'', COOL), (''3'', DRY), (''4'', HEAT), (''5'', FAN_ONLY)]"

record PolarisClimateEntity = GSACBaseEntity +
  topics :: "topic_key \<Rightarrow> string"
  attr_hvac_mode :: HVACMode
  attr_fan_mode :: string
  attr_swing_mode :: string
  attr_current_temperature :: "py_float option"
  attr_target_temperature :: py_float
  current_hvac_action :: HVACAction
  previous_fan_mode :: string
  need_fan_auto_correction :: bool

definition attr_hvac_modes :: "HVACMode list" where
  "attr_hvac_modes = [OFF, AUTO, COOL, DRY, HEAT, FAN_ONLY]"

definition attr_swing_modes :: "string list" where
  "attr_swing_modes = [SWING_ON, SWING_OFF]"

definition hvac_action_of :: "string \<Rightarrow> HVACAction" where
  "hvac_action_of payload =
    (if payload = ''0'' then ACTION_OFF
     else if payload = ''2'' then ACTION_COOLING
     else if payload = ''4'' then ACTION_HEATING
     else if payload = ''5'' then ACTION_FAN
     else ACTION_IDLE)"

definition mode_received :: "string \<Rightarrow> PolarisClimateEntity \<Rightarrow> PolarisClimateEntity \<times> effect list" where
  "mode_received payload s =
    (if \<not> available s then (s, [])
     else case map_of MQTT_TO_HVAC_MODE payload of
       None \<Rightarrow> (s, [])
     | Some new_hvac_mode \<Rightarrow>
         (let old_hvac_mode = attr_hvac_mode s;
              s1 = s\<lparr>attr_hvac_mode := new_hvac_mode\<rparr>;
              s2 = (if new_hvac_mode = FAN_ONLY \<and> old_hvac_mode \<noteq> FAN_ONLY
                    then (if attr_fan_mode s1 = FAN_AUTO then s1\<lparr>need_fan_auto_correction := True\<rparr> else s1)
                    else s1);
              s3 = s2\<lparr>current_hvac_action := hvac_action_of payload\<rparr>
          in (s3, safe_async_write_ha_state s3 @
                  (if need_fan_auto_correction s3 then [CreateTask correct_fan_speed_for_mode_task] else []))))"

definition temperature_received ::
  "(string \<Rightarrow> py_error + py_float) \<Rightarrow> string \<Rightarrow> PolarisClimateEntity \<Rightarrow>
   py_error + PolarisClimateEntity \<times> effect list" where
  "temperature_received float_of payload s =
    (if \<not> available s then Inr (s, [])
     else case float_of payload of
       Inr temp \<Rightarrow>
         (let s1 = s\<lparr>attr_current_temperature := Some temp\<rparr> in Inr (s1, safe_async_write_ha_state s1))
     | Inl e \<Rightarrow> if e = ValueError then Inr (s, []) else Inl e)"

definition target_temperature_received ::
  "(string \<Rightarrow> py_error + py_float) \<Rightarrow> string \<Rightarrow> PolarisClimateEntity \<Rightarrow>
   py_error + PolarisClimateEntity \<times> effect list" where
  "target_temperature_received float_of payload s =
    (if \<not> available s then Inr (s, [])
     else case float_of payload of
       Inr temp \<Rightarrow>
         (let s1 = s\<lparr>attr_target_temperature := temp\<rparr> in Inr (s1, safe_async_write_ha_state s1))
     | Inl e \<Rightarrow> if e = ValueError then Inr (s, []) else Inl e)"

definition fan_speed_received :: "string \<Rightarrow> PolarisClimateEntity \<Rightarrow> PolarisClimateEntity \<times> effect list" where
  "fan_speed_received payload s =
    (if \<not> available s then (s, [])
     else case map_of MQTT_TO_HA_FAN payload of
       None \<Rightarrow> (s, [])
     | Some new_fan_mode \<Rightarrow>
         (let s1 = (if attr_fan_mode s \<noteq> FAN_AUTO then s\<lparr>previous_fan_mode := attr_fan_mode s\<rparr> else s);
              s2 = (if need_fan_auto_correction s1 \<and> new_fan_mode \<noteq> FAN_AUTO
                    then s1\<lparr>need_fan_auto_correction := False\<rparr> else s1);
              s3 = s2\<lparr>attr_fan_mode := new_fan_mode\<rparr>
          in (s3, safe_async_write_ha_state s3)))"

definition swing_received :: "string \<Rightarrow> PolarisClimateEntity \<Rightarrow> PolarisClimateEntity \<times> effect list" where
  "swing_received payload s =
    (if \<not> available s then (s, [])
     else case map_of MQTT_TO_HA_SWING payload of
       None \<Rightarrow> (s, [])
     | Some swing \<Rightarrow>
         (let s1 = s\<lparr>attr_swing_mode := swing\<rparr> in (s1, safe_async_write_ha_state s1)))"

definition climate_setup_mqtt_subscriptions ::
  "PolarisClimateEntity \<Rightarrow> PolarisClimateEntity \<times> effect list" where
  "climate_setup_mqtt_subscriptions s =
    foldl (\<lambda>r key. and_then r (\<lambda>s'. subscribe (topics s' key) 0 s')) (s, [])
      [mode_out, temp_out, temp_comfort_out, fan_speed_out, backlight_out]"

definition climate_reset_state :: "PolarisClimateEntity \<Rightarrow> PolarisClimateEntity" where
  "climate_reset_state s =
    s\<lparr>attr_current_temperature := None, current_hvac_action := ACTION_OFF,
      need_fan_auto_correction := False\<rparr>"

definition climate_on_availability_changed ::
  "bool \<Rightarrow> PolarisClimateEntity \<Rightarrow> PolarisClimateEntity \<times> effect list" where
  "climate_on_availability_changed =
    on_availability_changed climate_setup_mqtt_subscriptions climate_reset_state"

definition fan_modes :: "PolarisClimateEntity \<Rightarrow> string list" where
  "fan_modes s =
    (if \<not> available s then []
     else if attr_hvac_mode s = FAN_ONLY then [FAN_LOW, FAN_MEDIUM, FAN_HIGH]
     else [FAN_AUTO, FAN_LOW, FAN_MEDIUM, FAN_HIGH])"

definition async_set_fan_mode :: "string \<Rightarrow> PolarisClimateEntity \<Rightarrow> PolarisClimateEntity \<times> effect list" where
  "async_set_fan_mode fan_mode s =
    (if \<not> available s then (s, [])
     else if fan_mode \<notin> set (fan_modes s) then (s, [])
     else if attr_hvac_mode s = FAN_ONLY \<and> fan_mode = FAN_AUTO then (s, [])
     else case map_of HA_TO_MQTT_FAN fan_mode of
       None \<Rightarrow> (s, [])
     | Some mqtt_value \<Rightarrow>
         (let s1 = (if fan_mode \<noteq> FAN_AUTO then s\<lparr>previous_fan_mode := fan_mode\<rparr> else s);
              s2 = s1\<lparr>attr_fan_mode := fan_mode\<rparr>
          in (s2, Publish (topics s fan_speed_in) mqtt_value 0 False # safe_async_write_ha_state s2)))"

definition correct_fan_speed_for_mode :: "PolarisClimateEntity \<Rightarrow> PolarisClimateEntity \<times> effect list" where
  "correct_fan_speed_for_mode s =
    (if \<not> need_fan_auto_correction s \<or> \<not> available s then (s, [])
     else
       and_then
         (if attr_hvac_mode s = FAN_ONLY \<and> attr_fan_mode s = FAN_AUTO
          then async_set_fan_mode FAN_LOW s else (s, []))
         (\<lambda>s'. (s'\<lparr>need_fan_auto_correction := False\<rparr>, [])))"

text \<open>Running a task that the event loop was handed.\<close>

fun run_task :: "task \<Rightarrow> PolarisClimateEntity \<Rightarrow> PolarisClimateEntity \<times> effect list" where
  "run_task correct_fan_speed_for_mode_task s = correct_fan_speed_for_mode s"

definition async_set_hvac_mode :: "HVACMode \<Rightarrow> PolarisClimateEntity \<Rightarrow> PolarisClimateEntity \<times> effect list" where
  "async_set_hvac_mode hvac_mode s =
    (if \<not> available s then (s, [])
     else if hvac_mode \<notin> set attr_hvac_modes then (s, [])
     else
       (let old_hvac_mode = attr_hvac_mode s in
        case map_of HA_TO_MQTT_MODES (HVACMode_value hvac_mode) of
          None \<Rightarrow> (s, [])
        | Some mqtt_value \<Rightarrow>
            and_then
              (if hvac_mode = FAN_ONLY \<and> old_hvac_mode \<noteq> FAN_ONLY
               then (if attr_fan_mode s = FAN_AUTO
                     then async_set_fan_mode FAN_LOW
                            (if old_hvac_mode \<noteq> FAN_ONLY \<and> attr_fan_mode s \<noteq> FAN_AUTO
                             then s\<lparr>previous_fan_mode := attr_fan_mode s\<rparr> else s)
                     else (s, []))
               else (s, []))
              (\<lambda>s'. (let s2 = s'\<lparr>attr_hvac_mode := hvac_mode\<rparr>
                     in (s2, Publish (topics s' mode_in) mqtt_value 0 False # safe_async_write_ha_state s2)))))"

text \<open>
  \<open>async_set_temperature(**kwargs)\<close>: the argument is \<open>kwargs.get(ATTR_TEMPERATURE)\<close>,
  \<open>None\<close> when the key is absent.
\<close>

definition async_set_temperature ::
  "py_float option \<Rightarrow> PolarisClimateEntity \<Rightarrow> py_error + PolarisClimateEntity \<times> effect list" where
  "async_set_temperature temperature s =
    (if \<not> available s then Inr (s, [])
     else case temperature of
       None \<Rightarrow> Inr (s, [])
     | Some t \<Rightarrow>
         (case int_round (py_max (Finite (of_int TEMP_MIN)) (py_min (Finite (of_int TEMP_MAX)) t)) of
            Inl e \<Rightarrow> Inl e
          | Inr temperature_int \<Rightarrow>
              (let s1 = s\<lparr>attr_target_temperature := Finite (of_int temperature_int)\<rparr>
               in Inr (s1, Publish (topics s temp_comfort_in) (str_int temperature_int) 0 False
                           # safe_async_write_ha_state s1))))"

definition async_set_swing_mode :: "string \<Rightarrow> PolarisClimateEntity \<Rightarrow> PolarisClimateEntity \<times> effect list" where
  "async_set_swing_mode swing_mode s =
    (if \<not> available s then (s, [])
     else if swing_mode \<notin> set attr_swing_modes then (s, [])
     else case map_of HA_TO_MQTT_SWING swing_mode of
       None \<Rightarrow> (s, [])
     | Some mqtt_value \<Rightarrow>
         (let s1 = s\<lparr>attr_swing_mode := swing_mode\<rparr>
          in (s1, Publish (topics s backlight_in) mqtt_value 0 False # safe_async_write_ha_state s1)))"

section \<open>The target-temperature number entity (number.py)\<close>

record TargetTemperatureNumber = GSACBaseEntity +
  number_topic_read :: string
  number_topic_write :: string
  number_native_value :: int

definition number_message_received ::
  "(string \<Rightarrow> py_error + py_float) \<Rightarrow> string \<Rightarrow> TargetTemperatureNumber \<Rightarrow>
   py_error + TargetTemperatureNumber \<times> effect list" where
  "number_message_received float_of payload s =
    (if \<not> available s then Inr (s, [])
     else case (case float_of payload of Inl e \<Rightarrow> Inl e | Inr temperature \<Rightarrow> int_round temperature) of
       Inr temperature_int \<Rightarrow>
         if TEMP_MIN \<le> temperature_int \<and> temperature_int \<le> TEMP_MAX
         then (let s1 = s\<lparr>number_native_value := temperature_int\<rparr>
               in Inr (s1, safe_async_write_ha_state s1))
         else Inr (s, [])
     | Inl e \<Rightarrow> if e = ValueError \<or> e = TypeError then Inr (s, []) else Inl e)"

definition number_setup_mqtt_subscriptions ::
  "TargetTemperatureNumber \<Rightarrow> TargetTemperatureNumber \<times> effect list" where
  "number_setup_mqtt_subscriptions s = subscribe (number_topic_read s) 1 s"

definition number_reset_state :: "TargetTemperatureNumber \<Rightarrow> TargetTemperatureNumber" where
  "number_reset_state s = s\<lparr>number_native_value := TEMP_DEFAULT\<rparr>"

definition number_on_availability_changed ::
  "bool \<Rightarrow> TargetTemperatureNumber \<Rightarrow> TargetTemperatureNumber \<times> effect list" where
  "number_on_availability_changed =
    on_availability_changed number_setup_mqtt_subscriptions number_reset_state"

text \<open>An exception of \<open>int(round(value))\<close> is logged and raised again.\<close>

definition async_set_native_value ::
  "py_float \<Rightarrow> TargetTemperatureNumber \<Rightarrow> py_error + TargetTemperatureNumber \<times> effect list" where
  "async_set_native_value v s =
    (if \<not> available s then Inr (s, [])
     else case int_round v of
       Inl e \<Rightarrow> Inl e
     | Inr temp_int \<Rightarrow>
         if temp_int < TEMP_MIN \<or> temp_int > TEMP_MAX then Inr (s, [])
         else (let s1 = s\<lparr>number_native_value := temp_int\<rparr>
               in Inr (s1, Publish (number_topic_write s) (str_int temp_int) 1 False
                           # safe_async_write_ha_state s1)))"

section \<open>The temperature sensors (sensor.py)\<close>

record TemperatureSensor = GSACBaseEntity +
  sensor_topic :: string
  is_target_temp :: bool
  sensor_native_value :: "py_float option"

definition sensor_message_received ::
  "(string \<Rightarrow> py_error + py_float) \<Rightarrow> string \<Rightarrow> TemperatureSensor \<Rightarrow>
   py_error + TemperatureSensor \<times> effect list" where
  "sensor_message_received float_of payload s =
    (if \<not> available s then Inr (s, [])
     else case (case float_of payload of
                  Inl e \<Rightarrow> Inl e
                | Inr temperature \<Rightarrow>
                    if is_target_temp s
                    then (case int_round temperature of Inl e \<Rightarrow> Inl e | Inr n \<Rightarrow> Inr (Finite (of_int n)))
                    else Inr temperature) of
       Inr temperature \<Rightarrow>
         (let s1 = s\<lparr>sensor_native_value := Some temperature\<rparr>
          in Inr (s1, safe_async_write_ha_state s1))
     | Inl e \<Rightarrow>
         if e = ValueError \<or> e = TypeError
         then (let s1 = s\<lparr>sensor_native_value := None\<rparr> in Inr (s1, safe_async_write_ha_state s1))
         else Inl e)"

definition sensor_setup_mqtt_subscriptions :: "TemperatureSensor \<Rightarrow> TemperatureSensor \<times> effect list" where
  "sensor_setup_mqtt_subscriptions s = subscribe (sensor_topic s) 1 s"

definition sensor_reset_state :: "TemperatureSensor \<Rightarrow> TemperatureSensor" where
  "sensor_reset_state s = s\<lparr>sensor_native_value := None\<rparr>"

definition sensor_on_availability_changed ::
  "bool \<Rightarrow> TemperatureSensor \<Rightarrow> TemperatureSensor \<times> effect list" where
  "sensor_on_availability_changed =
    on_availability_changed sensor_setup_mqtt_subscriptions sensor_reset_state"

section \<open>The louvre switch (switch.py)\<close>

record BlindsSwitch = GSACBaseEntity +
  switch_topic_in :: string
  switch_topic_out :: string
  switch_state :: bool

definition switch_message_received :: "string \<Rightarrow> BlindsSwitch \<Rightarrow> BlindsSwitch \<times> effect list" where
  "switch_message_received payload s =
    (if \<not> available s then (s, [])
     else
       (let s1 = (if payload = BLINDS_ON then s\<lparr>switch_state := True\<rparr>
                  else if payload = BLINDS_OFF then s\<lparr>switch_state := False\<rparr>
                  else s)
        in (s1, safe_async_write_ha_state s1)))"

definition switch_setup_mqtt_subscriptions :: "BlindsSwitch \<Rightarrow> BlindsSwitch \<times> effect list" where
  "switch_setup_mqtt_subscriptions s = subscribe (switch_topic_out s) 0 s"

definition switch_reset_state :: "BlindsSwitch \<Rightarrow> BlindsSwitch" where
  "switch_reset_state s = s\<lparr>switch_state := False\<rparr>"

definition switch_on_availability_changed :: "bool \<Rightarrow> BlindsSwitch \<Rightarrow> BlindsSwitch \<times> effect list" where
  "switch_on_availability_changed =
    on_availability_changed switch_setup_mqtt_subscriptions switch_reset_state"

definition publish_state :: "string \<Rightarrow> BlindsSwitch \<Rightarrow> effect list" where
  "publish_state payload s = [Publish (switch_topic_in s) payload 0 False]"

definition async_turn_on :: "BlindsSwitch \<Rightarrow> BlindsSwitch \<times> effect list" where
  "async_turn_on s =
    (if \<not> available s then (s, [])
     else (let s1 = s\<lparr>switch_state := True\<rparr>
           in (s1, publish_state BLINDS_ON s @ safe_async_write_ha_state s1)))"

definition async_turn_off :: "BlindsSwitch \<Rightarrow> BlindsSwitch \<times> effect list" where
  "async_turn_off s =
    (if \<not> available s then (s, [])
     else (let s1 = s\<lparr>switch_state := False\<rparr>
           in (s1, publish_state BLINDS_OFF s @ safe_async_write_ha_state s1)))"

section \<open>The selectors (select.py)\<close>

text \<open>
  The lookup loop of \<open>async_select_option\<close>: the first key, in insertion order, whose
  value is the option.
\<close>

definition key_of_value :: "('k \<times> 'v) list \<Rightarrow> 'v \<Rightarrow> 'k option" where
  "key_of_value d option = map_option fst (find (\<lambda>kv. snd kv = option) d)"

text \<open>\<open>d.get(key, default)\<close>.\<close>

definition dict_get :: "('k \<times> 'v) list \<Rightarrow> 'k \<Rightarrow> 'v \<Rightarrow> 'v" where
  "dict_get d key dflt = (case map_of d key of None \<Rightarrow> dflt | Some v \<Rightarrow> v)"

record ModeSelect = GSACBaseEntity +
  mode_topic_read :: string
  mode_topic_write :: string
  current_mode_mqtt :: string
  mode_current_option :: string
  mode_icon :: string

definition mode_message_received :: "string \<Rightarrow> ModeSelect \<Rightarrow> ModeSelect \<times> effect list" where
  "mode_message_received payload s =
    (if \<not> available s then (s, [])
     else case map_of MODE_SELECT_OPTIONS payload of
       Some option \<Rightarrow>
         (let s1 = s\<lparr>current_mode_mqtt := payload, mode_current_option := option,
                     mode_icon := dict_get MODE_SELECT_ICONS payload ''mdi:air-conditioner''\<rparr>
          in (s1, safe_async_write_ha_state s1))
     | None \<Rightarrow> (s, []))"

definition mode_setup_mqtt_subscriptions :: "ModeSelect \<Rightarrow> ModeSelect \<times> effect list" where
  "mode_setup_mqtt_subscriptions s = subscribe (mode_topic_read s) 1 s"

definition mode_reset_state :: "ModeSelect \<Rightarrow> ModeSelect" where
  "mode_reset_state s =
    s\<lparr>current_mode_mqtt := ''0'', mode_current_option := dict_get MODE_SELECT_OPTIONS ''0'' name_off\<rparr>"

definition mode_on_availability_changed :: "bool \<Rightarrow> ModeSelect \<Rightarrow> ModeSelect \<times> effect list" where
  "mode_on_availability_changed =
    on_availability_changed mode_setup_mqtt_subscriptions mode_reset_state"

definition mode_async_select_option :: "string \<Rightarrow> ModeSelect \<Rightarrow> ModeSelect \<times> effect list" where
  "mode_async_select_option option s =
    (if \<not> available s then (s, [])
     else case key_of_value MODE_SELECT_OPTIONS option of
       None \<Rightarrow> (s, [])
     | Some mqtt_value \<Rightarrow>
         (let s1 = s\<lparr>current_mode_mqtt := mqtt_value, mode_current_option := option,
                     mode_icon := dict_get MODE_SELECT_ICONS mqtt_value ''mdi:air-conditioner''\<rparr>
          in (s1, Publish (mode_topic_write s) mqtt_value 1 False # safe_async_write_ha_state s1)))"

record FanSpeedSelect = GSACBaseEntity +
  fan_topic_read :: string
  fan_topic_write :: string
  current_fan_speed_mqtt :: string
  fan_current_option :: string
  fan_icon :: string

definition fan_message_received :: "string \<Rightarrow> FanSpeedSelect \<Rightarrow> FanSpeedSelect \<times> effect list" where
  "fan_message_received payload s =
    (if \<not> available s then (s, [])
     else case map_of FAN_SELECT_OPTIONS payload of
       Some option \<Rightarrow>
         (let s1 = s\<lparr>current_fan_speed_mqtt := payload, fan_current_option := option,
                     fan_icon := dict_get FAN_SELECT_ICONS payload ''mdi:fan''\<rparr>
          in (s1, safe_async_write_ha_state s1))
     | None \<Rightarrow> (s, []))"

definition fan_setup_mqtt_subscriptions :: "FanSpeedSelect \<Rightarrow> FanSpeedSelect \<times> effect list" where
  "fan_setup_mqtt_subscriptions s = subscribe (fan_topic_read s) 1 s"

definition fan_reset_state :: "FanSpeedSelect \<Rightarrow> FanSpeedSelect" where
  "fan_reset_state s =
    s\<lparr>current_fan_speed_mqtt := ''0'', fan_current_option := dict_get FAN_SELECT_OPTIONS ''0'' name_auto\<rparr>"

definition fan_on_availability_changed :: "bool \<Rightarrow> FanSpeedSelect \<Rightarrow> FanSpeedSelect \<times> effect list" where
  "fan_on_availability_changed =
    on_availability_changed fan_setup_mqtt_subscriptions fan_reset_state"

definition fan_async_select_option :: "string \<Rightarrow> FanSpeedSelect \<Rightarrow> FanSpeedSelect \<times> effect list" where
  "fan_async_select_option option s =
    (if \<not> available s then (s, [])
     else case key_of_value FAN_SELECT_OPTIONS option of
       None \<Rightarrow> (s, [])
     | Some mqtt_value \<Rightarrow>
         (let s1 = s\<lparr>current_fan_speed_mqtt := mqtt_value, fan_current_option := option,
                     fan_icon := dict_get FAN_SELECT_ICONS mqtt_value ''mdi:fan''\<rparr>
          in (s1, Publish (fan_topic_write s) mqtt_value 1 False # safe_async_write_ha_state s1)))"

section \<open>The displayed target temperature\<close>

text \<open>
  The invariant of the data model: the displayed target temperature is a whole number of
  degrees between \<open>TEMP_MIN\<close> and \<open>TEMP_MAX\<close>.
\<close>

fun valid_target_temperature :: "py_float \<Rightarrow> bool" where
  "valid_target_temperature (Finite r) =
    (r = of_int \<lfloor>r\<rfloor> \<and> of_int TEMP_MIN \<le> r \<and> r \<le> of_int TEMP_MAX)"
| "valid_target_temperature _ = False"

section \<open>Example entities\<close>

text \<open>
  One device with the identifier const.py gives as default, its entities as
  \<open>async_setup_entry\<close> of each platform constructs them, registered with Home Assistant
  and subscribed while the device is online. The climate entity is in mode \<open>auto\<close> with
  fan speed \<open>auto\<close>.
\<close>

definition DEFAULT_DEVICE_ID :: string where
  "DEFAULT_DEVICE_ID = ''1cdbd4cbcc74''"

definition example_climate :: PolarisClimateEntity where
  "example_climate =
    \<lparr>device_id = DEFAULT_DEVICE_ID, available = True, entity_ready = True,
     entity_id = Some ''climate.gsac'',
     mqtt_subscriptions = map (\<lambda>key. MQTT_TOPICS key DEFAULT_DEVICE_ID)
       [mode_out, temp_out, temp_comfort_out, fan_speed_out, backlight_out],
     topics = (\<lambda>key. MQTT_TOPICS key DEFAULT_DEVICE_ID),
     attr_hvac_mode = AUTO, attr_fan_mode = FAN_AUTO, attr_swing_mode = SWING_OFF,
     attr_current_temperature = Some (Finite 24), attr_target_temperature = Finite 22,
     current_hvac_action = ACTION_IDLE, previous_fan_mode = FAN_AUTO,
     need_fan_auto_correction = False\<rparr>"

definition example_number :: TargetTemperatureNumber where
  "example_number =
    \<lparr>device_id = DEFAULT_DEVICE_ID, available = True, entity_ready = True,
     entity_id = Some ''number.gsac'',
     mqtt_subscriptions = [MQTT_TOPICS temp_comfort_out DEFAULT_DEVICE_ID],
     number_topic_read = MQTT_TOPICS temp_comfort_out DEFAULT_DEVICE_ID,
     number_topic_write = MQTT_TOPICS temp_comfort_in DEFAULT_DEVICE_ID,
     number_native_value = 24\<rparr>"

definition example_sensor :: TemperatureSensor where
  "example_sensor =
    \<lparr>device_id = DEFAULT_DEVICE_ID, available = True, entity_ready = True,
     entity_id = Some ''sensor.gsac'',
     mqtt_subscriptions = [MQTT_TOPICS temp_out DEFAULT_DEVICE_ID],
     sensor_topic = MQTT_TOPICS temp_out DEFAULT_DEVICE_ID,
     is_target_temp = False, sensor_native_value = Some (Finite 24)\<rparr>"

definition example_switch :: BlindsSwitch where
  "example_switch =
    \<lparr>device_id = DEFAULT_DEVICE_ID, available = True, entity_ready = True,
     entity_id = Some ''switch.gsac'',
     mqtt_subscriptions = [MQTT_TOPICS backlight_out DEFAULT_DEVICE_ID],
     switch_topic_in = MQTT_TOPICS backlight_in DEFAULT_DEVICE_ID,
     switch_topic_out = MQTT_TOPICS backlight_out DEFAULT_DEVICE_ID,
     switch_state = True\<rparr>"

definition example_mode_select :: ModeSelect where
  "example_mode_select =
    \<lparr>device_id = DEFAULT_DEVICE_ID, available = True, entity_ready = True,
     entity_id = Some ''select.gsac_mode'',
     mqtt_subscriptions = [MQTT_TOPICS mode_out DEFAULT_DEVICE_ID],
     mode_topic_read = MQTT_TOPICS mode_out DEFAULT_DEVICE_ID,
     mode_topic_write = MQTT_TOPICS mode_in DEFAULT_DEVICE_ID,
     current_mode_mqtt = ''2'', mode_current_option = name_cool, mode_icon = ''mdi:snowflake''\<rparr>"

definition example_fan_select :: FanSpeedSelect where
  "example_fan_select =
    \<lparr>device_id = DEFAULT_DEVICE_ID, available = True, entity_ready = True,
     entity_id = Some ''select.gsac_fan'',
     mqtt_subscriptions = [MQTT_TOPICS fan_speed_out DEFAULT_DEVICE_ID],
     fan_topic_read = MQTT_TOPICS fan_speed_out DEFAULT_DEVICE_ID,
     fan_topic_write = MQTT_TOPICS fan_speed_in DEFAULT_DEVICE_ID,
     current_fan_speed_mqtt = ''3'', fan_current_option = name_high, fan_icon = ''mdi:fan-speed-3''\<rparr>"

section \<open>Codec tables: round trip\<close>

lemma HA_TO_MQTT_MODES_eq:
  "HA_TO_MQTT_MODES = [(''off'', ''0''), (''auto'', ''1''), (''cool'', ''2''), (''dry'', ''3''),
     (''heat'', ''4''), (''fan_only'', ''5'')]"
  by (simp add: HA_TO_MQTT_MODES_def MODE_MAPPING_def dict_of_def)

lemma MQTT_TO_HA_MODES_eq:
  "MQTT_TO_HA_MODES = [(''0'', ''off''), (''1'', ''auto''), (''2'', ''cool''), (''3'', ''dry''),
     (''4'', ''heat''), (''5'', ''fan_only'')]"
  by (simp add: MQTT_TO_HA_MODES_def MODE_MAPPING_def dict_of_def)

lemma HA_TO_MQTT_FAN_eq:
  "HA_TO_MQTT_FAN = [(''auto'', ''0''), (''low'', ''1''), (''medium'', ''2''), (''high'', ''3'')]"
  by (simp add: HA_TO_MQTT_FAN_def FAN_SPEEDS_def dict_of_def)

lemma MQTT_TO_HA_FAN_eq:
  "MQTT_TO_HA_FAN = [(''0'', ''auto''), (''1'', ''low''), (''2'', ''medium''), (''3'', ''high'')]"
  by (simp add: MQTT_TO_HA_FAN_def FAN_SPEEDS_def dict_of_def)

lemma HA_TO_MQTT_SWING_eq: "HA_TO_MQTT_SWING = [(''on'', ''1''), (''off'', ''0'')]"
  by (simp add: HA_TO_MQTT_SWING_def SWING_MODES_def dict_of_def)

lemma MQTT_TO_HA_SWING_eq: "MQTT_TO_HA_SWING = [(''1'', ''on''), (''0'', ''off'')]"
  by (simp add: MQTT_TO_HA_SWING_def SWING_MODES_def dict_of_def)

text \<open>
  C9. For every (wire code, domain value) pair of the mode, fan-speed and louvre tables,
  the encoding table maps the domain value to the wire code and the decoding table maps
  the wire code to the domain value, so encoding and then decoding gives back the domain
  value, and decoding and then encoding gives back the wire code.
\<close>

theorem codec_round_trip:
  "(\<forall>(w, d) \<in> set (codec_pairs MODE_MAPPING).
      map_of HA_TO_MQTT_MODES d = Some w \<and> map_of MQTT_TO_HA_MODES w = Some d \<and>
      Option.bind (map_of HA_TO_MQTT_MODES d) (map_of MQTT_TO_HA_MODES) = Some d \<and>
      Option.bind (map_of MQTT_TO_HA_MODES w) (map_of HA_TO_MQTT_MODES) = Some w) \<and>
   (\<forall>(w, d) \<in> set (codec_pairs FAN_SPEEDS).
      map_of HA_TO_MQTT_FAN d = Some w \<and> map_of MQTT_TO_HA_FAN w = Some d \<and>
      Option.bind (map_of HA_TO_MQTT_FAN d) (map_of MQTT_TO_HA_FAN) = Some d \<and>
      Option.bind (map_of MQTT_TO_HA_FAN w) (map_of HA_TO_MQTT_FAN) = Some w) \<and>
   (\<forall>(w, d) \<in> set (codec_pairs SWING_MODES).
      map_of HA_TO_MQTT_SWING d = Some w \<and> map_of MQTT_TO_HA_SWING w = Some d \<and>
      Option.bind (map_of HA_TO_MQTT_SWING d) (map_of MQTT_TO_HA_SWING) = Some d \<and>
      Option.bind (map_of MQTT_TO_HA_SWING w) (map_of HA_TO_MQTT_SWING) = Some w)"
  by (simp add: codec_pairs_def MODE_MAPPING_def FAN_SPEEDS_def SWING_MODES_def
      HA_TO_MQTT_MODES_eq MQTT_TO_HA_MODES_eq HA_TO_MQTT_FAN_eq MQTT_TO_HA_FAN_eq
      HA_TO_MQTT_SWING_eq MQTT_TO_HA_SWING_eq)

theorem codec_round_trip_witness:
  "(''5'', ''fan_only'') \<in> set (codec_pairs MODE_MAPPING) \<and>
   map_of HA_TO_MQTT_MODES ''fan_only'' = Some ''5'' \<and> map_of MQTT_TO_HA_MODES ''5'' = Some ''fan_only'' \<and>
   (''1'', ''low'') \<in> set (codec_pairs FAN_SPEEDS) \<and>
   map_of HA_TO_MQTT_FAN ''low'' = Some ''1'' \<and> map_of MQTT_TO_HA_FAN ''1'' = Some ''low'' \<and>
   (''1'', ''on'') \<in> set (codec_pairs SWING_MODES) \<and>
   map_of HA_TO_MQTT_SWING ''on'' = Some ''1'' \<and> map_of MQTT_TO_HA_SWING ''1'' = Some ''on''"
proof -
  have m: "(''5'', ''fan_only'') \<in> set (codec_pairs MODE_MAPPING)"
    by (simp add: codec_pairs_def MODE_MAPPING_def)
  have f: "(''1'', ''low'') \<in> set (codec_pairs FAN_SPEEDS)"
    by (simp add: codec_pairs_def FAN_SPEEDS_def)
  have w: "(''1'', ''on'') \<in> set (codec_pairs SWING_MODES)"
    by (simp add: codec_pairs_def SWING_MODES_def)
  from codec_round_trip m f w show ?thesis by fast
qed

section \<open>The availability manager: connectivity payloads\<close>

text \<open>
  What \<open>availability_received\<close> does with a payload that is not the online sentinel:
  it is taken as offline, whatever it is.
\<close>

lemma availability_received_not_online:
  "payload \<noteq> CONNECTED_ONLINE \<Longrightarrow>
   availability_received payload m =
     (if m_available m then (m\<lparr>m_available := False\<rparr>, map (\<lambda>entity. (entity, False)) (m_entities m))
      else (m, []))"
  by (simp add: availability_received_def)

text \<open>
  C1. A connectivity message whose payload is neither \<open>"1"\<close> nor \<open>"0"\<close> should be
  ignored. The code does not ignore it: with the device online and three registered
  entities, the payload \<open>"abc"\<close> switches the flag to offline and hands every entity an
  \<open>on_availability_changed(False)\<close> task.
\<close>

theorem unknown_connectivity_payload_goes_offline:
  "availability_received ''abc'' \<lparr>m_available = True, m_entities = [1::nat, 2, 3]\<rparr> =
     (\<lparr>m_available = False, m_entities = [1, 2, 3]\<rparr>, [(1, False), (2, False), (3, False)])"
  by (simp add: availability_received_def CONNECTED_ONLINE_def)

section \<open>Availability gating\<close>

text \<open>
  C10. While an entity's availability flag is false, every inbound MQTT handler (the five
  of the climate entity, and those of the number entity, the sensors, the two selectors
  and the switch) returns at once: the state is unchanged and nothing is written,
  published or scheduled.
\<close>

theorem inbound_handlers_guard_on_availability:
  "(\<not> available c \<longrightarrow>
      mode_received payload c = (c, []) \<and>
      temperature_received float_of payload c = Inr (c, []) \<and>
      target_temperature_received float_of payload c = Inr (c, []) \<and>
      fan_speed_received payload c = (c, []) \<and>
      swing_received payload c = (c, [])) \<and>
   (\<not> available n \<longrightarrow> number_message_received float_of payload n = Inr (n, [])) \<and>
   (\<not> available t \<longrightarrow> sensor_message_received float_of payload t = Inr (t, [])) \<and>
   (\<not> available m \<longrightarrow> mode_message_received payload m = (m, [])) \<and>
   (\<not> available f \<longrightarrow> fan_message_received payload f = (f, [])) \<and>
   (\<not> available b \<longrightarrow> switch_message_received payload b = (b, []))"
  by (simp add: mode_received_def temperature_received_def target_temperature_received_def
      fan_speed_received_def swing_received_def number_message_received_def
      sensor_message_received_def mode_message_received_def fan_message_received_def
      switch_message_received_def)

theorem inbound_handlers_guard_on_availability_witness:
  "\<not> available (example_climate\<lparr>available := False\<rparr>) \<and>
   mode_received ''5'' (example_climate\<lparr>available := False\<rparr>) = (example_climate\<lparr>available := False\<rparr>, []) \<and>
   temperature_received float_of_ascii ''5'' (example_climate\<lparr>available := False\<rparr>)
     = Inr (example_climate\<lparr>available := False\<rparr>, []) \<and>
   target_temperature_received float_of_ascii ''5'' (example_climate\<lparr>available := False\<rparr>)
     = Inr (example_climate\<lparr>available := False\<rparr>, []) \<and>
   fan_speed_received ''5'' (example_climate\<lparr>available := False\<rparr>) = (example_climate\<lparr>available := False\<rparr>, []) \<and>
   swing_received ''5'' (example_climate\<lparr>available := False\<rparr>) = (example_climate\<lparr>available := False\<rparr>, []) \<and>
   \<not> available (example_number\<lparr>available := False\<rparr>) \<and>
   number_message_received float_of_ascii ''5'' (example_number\<lparr>available := False\<rparr>)
     = Inr (example_number\<lparr>available := False\<rparr>, []) \<and>
   \<not> available (example_sensor\<lparr>available := False\<rparr>) \<and>
   sensor_message_received float_of_ascii ''5'' (example_sensor\<lparr>available := False\<rparr>)
     = Inr (example_sensor\<lparr>available := False\<rparr>, []) \<and>
   \<not> available (example_mode_select\<lparr>available := False\<rparr>) \<and>
   mode_message_received ''5'' (example_mode_select\<lparr>available := False\<rparr>)
     = (example_mode_select\<lparr>available := False\<rparr>, []) \<and>
   \<not> available (example_fan_select\<lparr>available := False\<rparr>) \<and>
   fan_message_received ''5'' (example_fan_select\<lparr>available := False\<rparr>)
     = (example_fan_select\<lparr>available := False\<rparr>, []) \<and>
   \<not> available (example_switch\<lparr>available := False\<rparr>) \<and>
   switch_message_received ''5'' (example_switch\<lparr>available := False\<rparr>)
     = (example_switch\<lparr>available := False\<rparr>, [])"
  using inbound_handlers_guard_on_availability
    [of "example_climate\<lparr>available := False\<rparr>" "''5''" float_of_ascii
        "example_number\<lparr>available := False\<rparr>" "example_sensor\<lparr>available := False\<rparr>"
        "example_mode_select\<lparr>available := False\<rparr>" "example_fan_select\<lparr>available := False\<rparr>"
        "example_switch\<lparr>available := False\<rparr>"]
  by simp

text \<open>
  C6. With the device unavailable, every outbound command (set mode, set temperature, set
  fan, set louvre on the climate entity; set value on the number entity; select option on
  the two selectors; turn on and turn off on the switch) is a no-op: the state is
  unchanged and nothing is published or written.
\<close>

theorem commands_unavailable_noop:
  "(\<not> available c \<longrightarrow>
      async_set_hvac_mode hvac_mode c = (c, []) \<and>
      async_set_temperature temperature c = Inr (c, []) \<and>
      async_set_fan_mode fan_mode c = (c, []) \<and>
      async_set_swing_mode swing_mode c = (c, [])) \<and>
   (\<not> available n \<longrightarrow> async_set_native_value v n = Inr (n, [])) \<and>
   (\<not> available m \<longrightarrow> mode_async_select_option mode_option m = (m, [])) \<and>
   (\<not> available f \<longrightarrow> fan_async_select_option fan_option f = (f, [])) \<and>
   (\<not> available b \<longrightarrow> async_turn_on b = (b, []) \<and> async_turn_off b = (b, []))"
  by (simp add: async_set_hvac_mode_def async_set_temperature_def async_set_fan_mode_def
      async_set_swing_mode_def async_set_native_value_def mode_async_select_option_def
      fan_async_select_option_def async_turn_on_def async_turn_off_def)

theorem commands_unavailable_noop_witness:
  "\<not> available (example_climate\<lparr>available := False\<rparr>) \<and>
   async_set_hvac_mode COOL (example_climate\<lparr>available := False\<rparr>)
     = (example_climate\<lparr>available := False\<rparr>, []) \<and>
   async_set_temperature (Some (Finite 25)) (example_climate\<lparr>available := False\<rparr>)
     = Inr (example_climate\<lparr>available := False\<rparr>, []) \<and>
   async_set_fan_mode FAN_HIGH (example_climate\<lparr>available := False\<rparr>)
     = (example_climate\<lparr>available := False\<rparr>, []) \<and>
   async_set_swing_mode SWING_ON (example_climate\<lparr>available := False\<rparr>)
     = (example_climate\<lparr>available := False\<rparr>, []) \<and>
   \<not> available (example_number\<lparr>available := False\<rparr>) \<and>
   async_set_native_value (Finite 25) (example_number\<lparr>available := False\<rparr>)
     = Inr (example_number\<lparr>available := False\<rparr>, []) \<and>
   \<not> available (example_mode_select\<lparr>available := False\<rparr>) \<and>
   mode_async_select_option name_heat (example_mode_select\<lparr>available := False\<rparr>)
     = (example_mode_select\<lparr>available := False\<rparr>, []) \<and>
   \<not> available (example_fan_select\<lparr>available := False\<rparr>) \<and>
   fan_async_select_option name_low (example_fan_select\<lparr>available := False\<rparr>)
     = (example_fan_select\<lparr>available := False\<rparr>, []) \<and>
   \<not> available (example_switch\<lparr>available := False\<rparr>) \<and>
   async_turn_on (example_switch\<lparr>available := False\<rparr>) = (example_switch\<lparr>available := False\<rparr>, []) \<and>
   async_turn_off (example_switch\<lparr>available := False\<rparr>) = (example_switch\<lparr>available := False\<rparr>, [])"
  using commands_unavailable_noop
    [of "example_climate\<lparr>available := False\<rparr>" COOL "Some (Finite 25)" FAN_HIGH SWING_ON
        "example_number\<lparr>available := False\<rparr>" "Finite 25"
        "example_mode_select\<lparr>available := False\<rparr>" name_heat
        "example_fan_select\<lparr>available := False\<rparr>" name_low
        "example_switch\<lparr>available := False\<rparr>"]
  by simp

section \<open>The fan-auto correction\<close>

lemma map_of_fan_low: "map_of HA_TO_MQTT_FAN FAN_LOW = Some ''1''"
  by (simp add: HA_TO_MQTT_FAN_eq FAN_LOW_def)

lemma map_of_mode_fan_only: "map_of HA_TO_MQTT_MODES ''fan_only'' = Some ''5''"
  by (simp add: HA_TO_MQTT_MODES_eq)

lemma FAN_LOW_not_AUTO: "FAN_LOW \<noteq> FAN_AUTO"
  by (simp add: FAN_LOW_def FAN_AUTO_def)

lemma safe_write_update [simp]:
  "safe_async_write_ha_state (attr_fan_mode_update g s) = safe_async_write_ha_state s"
  "safe_async_write_ha_state (attr_hvac_mode_update h s) = safe_async_write_ha_state s"
  "safe_async_write_ha_state (previous_fan_mode_update g s) = safe_async_write_ha_state s"
  "safe_async_write_ha_state (need_fan_auto_correction_update k s) = safe_async_write_ha_state s"
  "safe_async_write_ha_state (current_hvac_action_update a s) = safe_async_write_ha_state s"
  by (simp_all add: safe_async_write_ha_state_def)

lemma async_set_fan_mode_low:
  assumes "available s" and "attr_fan_mode s = FAN_AUTO"
  shows "async_set_fan_mode FAN_LOW s =
    (s\<lparr>previous_fan_mode := FAN_LOW, attr_fan_mode := FAN_LOW\<rparr>,
     Publish (topics s fan_speed_in) ''1'' 0 False # safe_async_write_ha_state s)"
  using assms
  by (simp add: async_set_fan_mode_def fan_modes_def map_of_fan_low FAN_LOW_not_AUTO Let_def)

lemma map_of_fan_codes:
  "map_of MQTT_TO_HA_FAN ''0'' = Some FAN_AUTO"
  "map_of MQTT_TO_HA_FAN ''1'' = Some FAN_LOW"
  "map_of MQTT_TO_HA_FAN ''2'' = Some FAN_MEDIUM"
  "map_of MQTT_TO_HA_FAN ''3'' = Some FAN_HIGH"
  by (simp_all add: MQTT_TO_HA_FAN_eq FAN_AUTO_def FAN_LOW_def FAN_MEDIUM_def FAN_HIGH_def)

lemma fan_speeds_not_AUTO: "FAN_MEDIUM \<noteq> FAN_AUTO" "FAN_HIGH \<noteq> FAN_AUTO"
  by (simp_all add: FAN_MEDIUM_def FAN_HIGH_def FAN_AUTO_def)

lemma example_topics: "topics example_climate key = MQTT_TOPICS key DEFAULT_DEVICE_ID"
  by (simp add: example_climate_def)

lemma example_climate_ready: "safe_async_write_ha_state example_climate = [WriteState]"
  by (simp add: safe_async_write_ha_state_def example_climate_def)

text \<open>
  C3. Entering fan-only from another mode with fan speed \<open>auto\<close>, on an available
  entity. Outbound (\<open>async_set_hvac_mode(FAN_ONLY)\<close>): the fan speed is set to \<open>low\<close>
  and \<open>"1"\<close> is published on \<open>fan_speed_in\<close> before \<open>"5"\<close> is published on
  \<open>mode_in\<close>, all in the one call, which ends with mode fan-only and fan \<open>low\<close>.
  Inbound (mode message \<open>"5"\<close>): the handler shows fan-only and schedules the
  correction task, and once that task has run the entity shows mode fan-only and fan
  \<open>low\<close> as well.
\<close>

theorem entering_fan_only_with_auto_ends_low:
  assumes "available s" and "attr_hvac_mode s \<noteq> FAN_ONLY" and "attr_fan_mode s = FAN_AUTO"
  shows
   "async_set_hvac_mode FAN_ONLY s =
      (s\<lparr>previous_fan_mode := FAN_LOW, attr_fan_mode := FAN_LOW, attr_hvac_mode := FAN_ONLY\<rparr>,
       Publish (topics s fan_speed_in) ''1'' 0 False # safe_async_write_ha_state s @
       Publish (topics s mode_in) ''5'' 0 False # safe_async_write_ha_state s) \<and>
    mode_received ''5'' s =
      (s\<lparr>attr_hvac_mode := FAN_ONLY, need_fan_auto_correction := True, current_hvac_action := ACTION_FAN\<rparr>,
       safe_async_write_ha_state s @ [CreateTask correct_fan_speed_for_mode_task]) \<and>
    run_task correct_fan_speed_for_mode_task
        (s\<lparr>attr_hvac_mode := FAN_ONLY, need_fan_auto_correction := True, current_hvac_action := ACTION_FAN\<rparr>) =
      (s\<lparr>attr_hvac_mode := FAN_ONLY, current_hvac_action := ACTION_FAN, previous_fan_mode := FAN_LOW,
         attr_fan_mode := FAN_LOW, need_fan_auto_correction := False\<rparr>,
       Publish (topics s fan_speed_in) ''1'' 0 False # safe_async_write_ha_state s)"
proof (intro conjI)
  show "async_set_hvac_mode FAN_ONLY s =
      (s\<lparr>previous_fan_mode := FAN_LOW, attr_fan_mode := FAN_LOW, attr_hvac_mode := FAN_ONLY\<rparr>,
       Publish (topics s fan_speed_in) ''1'' 0 False # safe_async_write_ha_state s @
       Publish (topics s mode_in) ''5'' 0 False # safe_async_write_ha_state s)"
    using assms
    by (simp add: async_set_hvac_mode_def attr_hvac_modes_def map_of_mode_fan_only
        async_set_fan_mode_low and_then_def Let_def)
next
  show "mode_received ''5'' s =
      (s\<lparr>attr_hvac_mode := FAN_ONLY, need_fan_auto_correction := True, current_hvac_action := ACTION_FAN\<rparr>,
       safe_async_write_ha_state s @ [CreateTask correct_fan_speed_for_mode_task])"
    using assms
    by (simp add: mode_received_def MQTT_TO_HVAC_MODE_def hvac_action_of_def Let_def)
next
  let ?s1 = "s\<lparr>attr_hvac_mode := FAN_ONLY, need_fan_auto_correction := True, current_hvac_action := ACTION_FAN\<rparr>"
  have "available ?s1" "attr_fan_mode ?s1 = FAN_AUTO" using assms by simp_all
  from async_set_fan_mode_low [OF this]
  show "run_task correct_fan_speed_for_mode_task ?s1 =
      (s\<lparr>attr_hvac_mode := FAN_ONLY, current_hvac_action := ACTION_FAN, previous_fan_mode := FAN_LOW,
         attr_fan_mode := FAN_LOW, need_fan_auto_correction := False\<rparr>,
       Publish (topics s fan_speed_in) ''1'' 0 False # safe_async_write_ha_state s)"
    using assms by (simp add: correct_fan_speed_for_mode_def and_then_def Let_def)
qed

theorem entering_fan_only_with_auto_ends_low_witness:
  "available (example_climate\<lparr>attr_hvac_mode := COOL\<rparr>) \<and>
   attr_hvac_mode (example_climate\<lparr>attr_hvac_mode := COOL\<rparr>) \<noteq> FAN_ONLY \<and>
   attr_fan_mode (example_climate\<lparr>attr_hvac_mode := COOL\<rparr>) = FAN_AUTO \<and>
   async_set_hvac_mode FAN_ONLY (example_climate\<lparr>attr_hvac_mode := COOL\<rparr>) =
     (example_climate\<lparr>previous_fan_mode := FAN_LOW, attr_fan_mode := FAN_LOW, attr_hvac_mode := FAN_ONLY\<rparr>,
      [Publish ''1cdbd4cbcc74/power/in'' ''1'' 0 False, WriteState,
       Publish ''1cdbd4cbcc74/mode/in'' ''5'' 0 False, WriteState]) \<and>
   mode_received ''5'' (example_climate\<lparr>attr_hvac_mode := COOL\<rparr>) =
     (example_climate\<lparr>attr_hvac_mode := FAN_ONLY, need_fan_auto_correction := True,
        current_hvac_action := ACTION_FAN\<rparr>,
      [WriteState, CreateTask correct_fan_speed_for_mode_task]) \<and>
   run_task correct_fan_speed_for_mode_task
       (example_climate\<lparr>attr_hvac_mode := FAN_ONLY, need_fan_auto_correction := True,
          current_hvac_action := ACTION_FAN\<rparr>) =
     (example_climate\<lparr>attr_hvac_mode := FAN_ONLY, current_hvac_action := ACTION_FAN,
        previous_fan_mode := FAN_LOW, attr_fan_mode := FAN_LOW, need_fan_auto_correction := False\<rparr>,
      [Publish ''1cdbd4cbcc74/power/in'' ''1'' 0 False, WriteState])"
proof -
  have a: "available (example_climate\<lparr>attr_hvac_mode := COOL\<rparr>)"
    and m: "attr_hvac_mode (example_climate\<lparr>attr_hvac_mode := COOL\<rparr>) \<noteq> FAN_ONLY"
    and f: "attr_fan_mode (example_climate\<lparr>attr_hvac_mode := COOL\<rparr>) = FAN_AUTO"
    by (simp_all add: example_climate_def)
  have w: "safe_async_write_ha_state example_climate = [WriteState]"
    by (simp add: safe_async_write_ha_state_def example_climate_def)
  from entering_fan_only_with_auto_ends_low [OF a m f] a m f w show ?thesis
    by (simp add: example_topics DEFAULT_DEVICE_ID_def)
qed

text \<open>
  C2, as amended. An inbound mode message \<open>"5"\<close> on an available entity that shows
  another mode and fan speed \<open>auto\<close> makes the displayed mode fan-only and schedules the
  correction; the correction, when it runs, publishes \<open>"1"\<close> on \<open>fan_speed_in\<close> and
  shows fan \<open>low\<close>. An inbound fan-speed message \<open>"1"\<close>, \<open>"2"\<close> or \<open>"3"\<close> that
  arrives before the correction runs clears the pending flag, and the correction then
  publishes nothing. An inbound fan-speed message \<open>"0"\<close> (auto) leaves the flag set,
  and the correction still publishes \<open>"1"\<close>.
\<close>

theorem inbound_fan_only_correction:
  assumes "available s" and "attr_hvac_mode s \<noteq> FAN_ONLY" and "attr_fan_mode s = FAN_AUTO"
  shows
   "(let s1 = s\<lparr>attr_hvac_mode := FAN_ONLY, need_fan_auto_correction := True,
                 current_hvac_action := ACTION_FAN\<rparr>
     in mode_received ''5'' s =
          (s1, safe_async_write_ha_state s @ [CreateTask correct_fan_speed_for_mode_task]) \<and>
        correct_fan_speed_for_mode s1 =
          (s1\<lparr>previous_fan_mode := FAN_LOW, attr_fan_mode := FAN_LOW, need_fan_auto_correction := False\<rparr>,
           Publish (topics s fan_speed_in) ''1'' 0 False # safe_async_write_ha_state s) \<and>
        (payload \<in> {''1'', ''2'', ''3''} \<longrightarrow>
           \<not> need_fan_auto_correction (fst (fan_speed_received payload s1)) \<and>
           correct_fan_speed_for_mode (fst (fan_speed_received payload s1)) =
             (fst (fan_speed_received payload s1), [])) \<and>
        fan_speed_received ''0'' s1 = (s1, safe_async_write_ha_state s) \<and>
        snd (correct_fan_speed_for_mode (fst (fan_speed_received ''0'' s1))) =
          Publish (topics s fan_speed_in) ''1'' 0 False # safe_async_write_ha_state s)"
proof -
  let ?s1 = "s\<lparr>attr_hvac_mode := FAN_ONLY, need_fan_auto_correction := True,
                 current_hvac_action := ACTION_FAN\<rparr>"
  have rcv: "mode_received ''5'' s =
      (?s1, safe_async_write_ha_state s @ [CreateTask correct_fan_speed_for_mode_task])"
    using assms by (simp add: mode_received_def MQTT_TO_HVAC_MODE_def hvac_action_of_def Let_def)
  have "available ?s1" "attr_fan_mode ?s1 = FAN_AUTO" using assms by simp_all
  from async_set_fan_mode_low [OF this]
  have corr: "correct_fan_speed_for_mode ?s1 =
      (?s1\<lparr>previous_fan_mode := FAN_LOW, attr_fan_mode := FAN_LOW, need_fan_auto_correction := False\<rparr>,
       Publish (topics s fan_speed_in) ''1'' 0 False # safe_async_write_ha_state s)"
    using assms by (simp add: correct_fan_speed_for_mode_def and_then_def Let_def)
  have cancel: "\<not> need_fan_auto_correction (fst (fan_speed_received payload ?s1)) \<and>
      correct_fan_speed_for_mode (fst (fan_speed_received payload ?s1)) =
        (fst (fan_speed_received payload ?s1), [])"
    if "payload \<in> {''1'', ''2'', ''3''}"
    using that assms
    by (auto simp add: fan_speed_received_def map_of_fan_codes FAN_LOW_not_AUTO fan_speeds_not_AUTO
        correct_fan_speed_for_mode_def Let_def)
  have auto0: "fan_speed_received ''0'' ?s1 = (?s1, safe_async_write_ha_state s)"
    using assms by (simp add: fan_speed_received_def map_of_fan_codes Let_def)
  show ?thesis
    unfolding Let_def using rcv corr cancel auto0 by simp
qed

theorem inbound_fan_only_correction_witness:
  "available example_climate \<and> attr_hvac_mode example_climate \<noteq> FAN_ONLY \<and>
   attr_fan_mode example_climate = FAN_AUTO \<and> ''2'' \<in> {''1'', ''2'', ''3''} \<and>
   mode_received ''5'' example_climate =
     (example_climate\<lparr>attr_hvac_mode := FAN_ONLY, need_fan_auto_correction := True,
        current_hvac_action := ACTION_FAN\<rparr>,
      [WriteState, CreateTask correct_fan_speed_for_mode_task]) \<and>
   correct_fan_speed_for_mode
       (example_climate\<lparr>attr_hvac_mode := FAN_ONLY, need_fan_auto_correction := True,
          current_hvac_action := ACTION_FAN\<rparr>) =
     (example_climate\<lparr>attr_hvac_mode := FAN_ONLY, current_hvac_action := ACTION_FAN,
        previous_fan_mode := FAN_LOW, attr_fan_mode := FAN_LOW, need_fan_auto_correction := False\<rparr>,
      [Publish ''1cdbd4cbcc74/power/in'' ''1'' 0 False, WriteState]) \<and>
   correct_fan_speed_for_mode
       (fst (fan_speed_received ''2''
          (example_climate\<lparr>attr_hvac_mode := FAN_ONLY, need_fan_auto_correction := True,
             current_hvac_action := ACTION_FAN\<rparr>))) =
     (fst (fan_speed_received ''2''
          (example_climate\<lparr>attr_hvac_mode := FAN_ONLY, need_fan_auto_correction := True,
             current_hvac_action := ACTION_FAN\<rparr>)), [])"
proof -
  have a: "available example_climate" and m: "attr_hvac_mode example_climate \<noteq> FAN_ONLY"
    and f: "attr_fan_mode example_climate = FAN_AUTO"
    by (simp_all add: example_climate_def)
  from inbound_fan_only_correction [OF a m f, of "''2''"] a m f example_climate_ready
  show ?thesis
    by (simp add: Let_def example_topics DEFAULT_DEVICE_ID_def)
qed

text \<open>
  C2, as stated, says that an inbound fan-speed message \<open>"0"\<close> before the correction
  completes cancels it. It does not: after mode message \<open>"5"\<close> and fan-speed message
  \<open>"0"\<close>, the correction task publishes \<open>"1"\<close> on \<open>fan_speed_in\<close>.
\<close>

theorem inbound_auto_does_not_cancel_correction:
  "snd (correct_fan_speed_for_mode
          (fst (fan_speed_received ''0'' (fst (mode_received ''5'' example_climate))))) =
     [Publish ''1cdbd4cbcc74/power/in'' ''1'' 0 False, WriteState]"
proof -
  have 1: "fst (mode_received ''5'' example_climate) =
      example_climate\<lparr>attr_hvac_mode := FAN_ONLY, need_fan_auto_correction := True,
        current_hvac_action := ACTION_FAN\<rparr>"
    by (simp add: mode_received_def MQTT_TO_HVAC_MODE_def hvac_action_of_def Let_def
        example_climate_def)
  have 2: "fst (fan_speed_received ''0''
        (example_climate\<lparr>attr_hvac_mode := FAN_ONLY, need_fan_auto_correction := True,
           current_hvac_action := ACTION_FAN\<rparr>)) =
      example_climate\<lparr>attr_hvac_mode := FAN_ONLY, need_fan_auto_correction := True,
        current_hvac_action := ACTION_FAN\<rparr>"
    by (simp add: fan_speed_received_def map_of_fan_codes Let_def example_climate_def)
  have 3: "snd (correct_fan_speed_for_mode
        (example_climate\<lparr>attr_hvac_mode := FAN_ONLY, need_fan_auto_correction := True,
           current_hvac_action := ACTION_FAN\<rparr>)) =
      [Publish ''1cdbd4cbcc74/power/in'' ''1'' 0 False, WriteState]"
    by (simp add: correct_fan_speed_for_mode_def and_then_def async_set_fan_mode_def fan_modes_def
        map_of_fan_low FAN_LOW_not_AUTO Let_def example_climate_ready)
       (simp add: example_climate_def DEFAULT_DEVICE_ID_def)
  show ?thesis by (simp only: 1 2 3)
qed

section \<open>Losing availability\<close>

lemma on_availability_changed_offline:
  "available s \<Longrightarrow>
   on_availability_changed setup_subs reset_state False s =
     (reset_state (s\<lparr>available := False, mqtt_subscriptions := []\<rparr>),
      map Unsubscribe (mqtt_subscriptions s) @
      safe_async_write_ha_state (reset_state (s\<lparr>available := False, mqtt_subscriptions := []\<rparr>)))"
  by (simp add: on_availability_changed_def and_then_def unsubscribe_mqtt_def)

lemma select_option_0:
  "dict_get MODE_SELECT_OPTIONS ''0'' name_off = name_off"
  "dict_get FAN_SELECT_OPTIONS ''0'' name_auto = name_auto"
  by (simp_all add: dict_get_def MODE_SELECT_OPTIONS_def FAN_SELECT_OPTIONS_def MODE_MAPPING_def
      FAN_SPEEDS_def dict_of_def)

text \<open>
  C4, as amended. When the offline sentinel arrives while the device is online, the
  manager hands every registered entity an \<open>on_availability_changed(False)\<close> task. An
  entity that was available first cancels every subscription it holds and clears the
  list, then runs its own reset, then writes its state. The reset of the climate entity
  makes the current temperature unknown and the action off and clears the pending fan
  correction; the sensors' value becomes unknown; the number entity shows
  \<open>TEMP_DEFAULT\<close>; the mode selector shows off, the fan selector auto, the switch off.
\<close>

theorem unavailable_teardown_then_reset:
  "(m_available mg \<longrightarrow>
      availability_received CONNECTED_OFFLINE mg =
        (mg\<lparr>m_available := False\<rparr>, map (\<lambda>entity. (entity, False)) (m_entities mg))) \<and>
   (available c \<longrightarrow>
      climate_on_availability_changed False c =
        (climate_reset_state (c\<lparr>available := False, mqtt_subscriptions := []\<rparr>),
         map Unsubscribe (mqtt_subscriptions c) @ safe_async_write_ha_state c) \<and>
      attr_current_temperature (fst (climate_on_availability_changed False c)) = None \<and>
      current_hvac_action (fst (climate_on_availability_changed False c)) = ACTION_OFF \<and>
      \<not> need_fan_auto_correction (fst (climate_on_availability_changed False c))) \<and>
   (available t \<longrightarrow>
      sensor_on_availability_changed False t =
        (t\<lparr>available := False, mqtt_subscriptions := [], sensor_native_value := None\<rparr>,
         map Unsubscribe (mqtt_subscriptions t) @ safe_async_write_ha_state t)) \<and>
   (available n \<longrightarrow>
      number_on_availability_changed False n =
        (n\<lparr>available := False, mqtt_subscriptions := [], number_native_value := TEMP_DEFAULT\<rparr>,
         map Unsubscribe (mqtt_subscriptions n) @ safe_async_write_ha_state n)) \<and>
   (available m \<longrightarrow>
      mode_on_availability_changed False m =
        (m\<lparr>available := False, mqtt_subscriptions := [], current_mode_mqtt := ''0'',
           mode_current_option := name_off\<rparr>,
         map Unsubscribe (mqtt_subscriptions m) @ safe_async_write_ha_state m)) \<and>
   (available f \<longrightarrow>
      fan_on_availability_changed False f =
        (f\<lparr>available := False, mqtt_subscriptions := [], current_fan_speed_mqtt := ''0'',
           fan_current_option := name_auto\<rparr>,
         map Unsubscribe (mqtt_subscriptions f) @ safe_async_write_ha_state f)) \<and>
   (available b \<longrightarrow>
      switch_on_availability_changed False b =
        (b\<lparr>available := False, mqtt_subscriptions := [], switch_state := False\<rparr>,
         map Unsubscribe (mqtt_subscriptions b) @ safe_async_write_ha_state b))"
  by (simp add: climate_on_availability_changed_def sensor_on_availability_changed_def
      number_on_availability_changed_def mode_on_availability_changed_def
      fan_on_availability_changed_def switch_on_availability_changed_def
      on_availability_changed_offline climate_reset_state_def sensor_reset_state_def
      number_reset_state_def mode_reset_state_def fan_reset_state_def switch_reset_state_def
      select_option_0 safe_async_write_ha_state_def availability_received_def
      CONNECTED_OFFLINE_def CONNECTED_ONLINE_def)

theorem unavailable_teardown_then_reset_witness:
  "m_available \<lparr>m_available = True, m_entities = [1::nat, 2]\<rparr> \<and>
   availability_received ''0'' \<lparr>m_available = True, m_entities = [1::nat, 2]\<rparr> =
     (\<lparr>m_available = False, m_entities = [1, 2]\<rparr>, [(1, False), (2, False)]) \<and>
   available example_climate \<and>
   climate_on_availability_changed False example_climate =
     (example_climate\<lparr>available := False, mqtt_subscriptions := [],
        attr_current_temperature := None, current_hvac_action := ACTION_OFF\<rparr>,
      [Unsubscribe ''1cdbd4cbcc74/mode/out'', Unsubscribe ''1cdbd4cbcc74/sensor/temperature/out'',
       Unsubscribe ''1cdbd4cbcc74/temperature_comfort/out'', Unsubscribe ''1cdbd4cbcc74/power/out'',
       Unsubscribe ''1cdbd4cbcc74/backlight_auto/out'', WriteState]) \<and>
   available example_sensor \<and>
   sensor_on_availability_changed False example_sensor =
     (example_sensor\<lparr>available := False, mqtt_subscriptions := [], sensor_native_value := None\<rparr>,
      [Unsubscribe ''1cdbd4cbcc74/sensor/temperature/out'', WriteState]) \<and>
   available example_number \<and>
   number_on_availability_changed False example_number =
     (example_number\<lparr>available := False, mqtt_subscriptions := [], number_native_value := 22\<rparr>,
      [Unsubscribe ''1cdbd4cbcc74/temperature_comfort/out'', WriteState]) \<and>
   available example_mode_select \<and>
   mode_on_availability_changed False example_mode_select =
     (example_mode_select\<lparr>available := False, mqtt_subscriptions := [], current_mode_mqtt := ''0'',
        mode_current_option := name_off\<rparr>,
      [Unsubscribe ''1cdbd4cbcc74/mode/out'', WriteState]) \<and>
   available example_fan_select \<and>
   fan_on_availability_changed False example_fan_select =
     (example_fan_select\<lparr>available := False, mqtt_subscriptions := [], current_fan_speed_mqtt := ''0'',
        fan_current_option := name_auto\<rparr>,
      [Unsubscribe ''1cdbd4cbcc74/power/out'', WriteState]) \<and>
   available example_switch \<and>
   switch_on_availability_changed False example_switch =
     (example_switch\<lparr>available := False, mqtt_subscriptions := [], switch_state := False\<rparr>,
      [Unsubscribe ''1cdbd4cbcc74/backlight_auto/out'', WriteState])"
proof -
  have av: "available example_climate" "available example_sensor" "available example_number"
    "available example_mode_select" "available example_fan_select" "available example_switch"
    by (simp_all add: example_climate_def example_sensor_def example_number_def
        example_mode_select_def example_fan_select_def example_switch_def)
  have wr: "safe_async_write_ha_state example_climate = [WriteState]"
    "safe_async_write_ha_state example_sensor = [WriteState]"
    "safe_async_write_ha_state example_number = [WriteState]"
    "safe_async_write_ha_state example_mode_select = [WriteState]"
    "safe_async_write_ha_state example_fan_select = [WriteState]"
    "safe_async_write_ha_state example_switch = [WriteState]"
    by (simp_all add: safe_async_write_ha_state_def example_climate_def example_sensor_def
        example_number_def example_mode_select_def example_fan_select_def example_switch_def)
  have su: "mqtt_subscriptions example_climate =
      [''1cdbd4cbcc74/mode/out'', ''1cdbd4cbcc74/sensor/temperature/out'',
       ''1cdbd4cbcc74/temperature_comfort/out'', ''1cdbd4cbcc74/power/out'',
       ''1cdbd4cbcc74/backlight_auto/out'']"
    "mqtt_subscriptions example_sensor = [''1cdbd4cbcc74/sensor/temperature/out'']"
    "mqtt_subscriptions example_number = [''1cdbd4cbcc74/temperature_comfort/out'']"
    "mqtt_subscriptions example_mode_select = [''1cdbd4cbcc74/mode/out'']"
    "mqtt_subscriptions example_fan_select = [''1cdbd4cbcc74/power/out'']"
    "mqtt_subscriptions example_switch = [''1cdbd4cbcc74/backlight_auto/out'']"
    by (simp_all add: example_climate_def example_sensor_def example_number_def
        example_mode_select_def example_fan_select_def example_switch_def DEFAULT_DEVICE_ID_def)
  have nd: "need_fan_auto_correction example_climate = False"
    by (simp add: example_climate_def)
  from unavailable_teardown_then_reset
    [of "\<lparr>m_available = True, m_entities = [1::nat, 2]\<rparr>" example_climate example_sensor
        example_number example_mode_select example_fan_select example_switch]
    av wr su nd
  show ?thesis
    by (simp add: CONNECTED_OFFLINE_def TEMP_DEFAULT_def climate_reset_state_def)
qed

text \<open>
  C4, as stated, has every entity show mode off, fan auto and louvre off after the
  device became unavailable. The climate entity does not: showing cool, high and louvre
  on, it shows the same after \<open>on_availability_changed(False)\<close>.
\<close>

theorem climate_keeps_mode_fan_louvre_when_unavailable:
  "attr_hvac_mode (fst (climate_on_availability_changed False
      (example_climate\<lparr>attr_hvac_mode := COOL, attr_fan_mode := FAN_HIGH, attr_swing_mode := SWING_ON\<rparr>)))
     = COOL \<and>
   attr_fan_mode (fst (climate_on_availability_changed False
      (example_climate\<lparr>attr_hvac_mode := COOL, attr_fan_mode := FAN_HIGH, attr_swing_mode := SWING_ON\<rparr>)))
     = ''high'' \<and>
   attr_swing_mode (fst (climate_on_availability_changed False
      (example_climate\<lparr>attr_hvac_mode := COOL, attr_fan_mode := FAN_HIGH, attr_swing_mode := SWING_ON\<rparr>)))
     = ''on''"
  by (simp add: climate_on_availability_changed_def on_availability_changed_offline
      climate_reset_state_def example_climate_def FAN_HIGH_def SWING_ON_def)

section \<open>Target temperature\<close>

lemma py_round_cases: "py_round x = \<lfloor>x\<rfloor> \<or> py_round x = \<lfloor>x\<rfloor> + 1"
  by (simp add: py_round_def Let_def)


lemma py_round_of_int: "py_round (of_int n) = n"
  by (simp add: py_round_def Let_def)

lemma py_round_bounds:
  assumes "of_int a \<le> x" and "x \<le> of_int b"
  shows "a \<le> py_round x \<and> py_round x \<le> b"
proof -
  have lo: "a \<le> \<lfloor>x\<rfloor>" using assms(1) by (simp add: le_floor_iff)
  have hi: "\<lfloor>x\<rfloor> \<le> b" using assms(2) by (simp add: floor_le_iff) 
  show ?thesis
  proof (cases "x = of_int \<lfloor>x\<rfloor>")
    case True
    then have "py_round x = \<lfloor>x\<rfloor>" by (metis py_round_of_int)
    with lo hi show ?thesis by simp
  next
    case False
    then have "\<lfloor>x\<rfloor> < b" using assms(2) hi
      by (metis le_less order_antisym of_int_floor_le)
    with lo py_round_cases [of x] show ?thesis by auto
  qed
qed

lemma clamp_temperature:
  "py_max (Finite (of_int TEMP_MIN)) (py_min (Finite (of_int TEMP_MAX)) t) =
     Finite (case t of Finite r \<Rightarrow> max 16 (min 30 r) | PosInf \<Rightarrow> 30 | NegInf \<Rightarrow> 16 | NaN \<Rightarrow> 30)"
  by (cases t) (auto simp add: py_max_def py_min_def TEMP_MIN_def TEMP_MAX_def)



lemma safe_write_target [simp]:
  "safe_async_write_ha_state (attr_target_temperature_update g s) = safe_async_write_ha_state s"
  by (simp add: safe_async_write_ha_state_def)

lemma async_set_temperature_eq:
  "available s \<Longrightarrow>
   async_set_temperature (Some t) s =
     (let n = py_round (case t of Finite r \<Rightarrow> max 16 (min 30 r) | PosInf \<Rightarrow> 30 | NegInf \<Rightarrow> 16 | NaN \<Rightarrow> 30)
      in Inr (s\<lparr>attr_target_temperature := Finite (of_int n)\<rparr>,
              Publish (topics s temp_comfort_in) (str_int n) 0 False # safe_async_write_ha_state s))"
  by (simp add: async_set_temperature_def clamp_temperature Let_def)



lemma float_of_ascii_35: "float_of_ascii ''35'' = Inr (Finite 35)"
  by (simp add: float_of_ascii_def strip_def is_space_def absfloatvalue_def lower_def
      floatnumber_def is_e_def number_part_def is_digit_def digit_value_def nat_of_digits_def)

lemma float_of_ascii_abc: "float_of_ascii ''abc'' = Inl ValueError"
  by (simp add: float_of_ascii_def strip_def is_space_def absfloatvalue_def lower_def
      floatnumber_def is_e_def number_part_def is_digit_def digit_value_def nat_of_digits_def)

lemma outbound_target_temperature_valid:
  assumes "available s" and "async_set_temperature (Some t) s = Inr (s', es)"
  shows "valid_target_temperature (attr_target_temperature s')"
proof -
  let ?c = "case t of Finite r \<Rightarrow> max 16 (min 30 r) | PosInf \<Rightarrow> 30 | NegInf \<Rightarrow> 16 | NaN \<Rightarrow> 30"
  have "real_of_int 16 \<le> ?c" "?c \<le> real_of_int 30" by (cases t; simp)+
  from py_round_bounds [OF this] have "16 \<le> py_round ?c \<and> py_round ?c \<le> 30" .
  moreover have "attr_target_temperature s' = Finite (of_int (py_round ?c))"
    using assms by (auto simp add: async_set_temperature_eq Let_def)
  ultimately show ?thesis by (simp add: TEMP_MIN_def TEMP_MAX_def)
qed

lemma number_value_in_range:
  assumes "TEMP_MIN \<le> number_native_value n \<and> number_native_value n \<le> TEMP_MAX"
  shows "number_message_received float_of payload n = Inr (n', es) \<Longrightarrow>
           TEMP_MIN \<le> number_native_value n' \<and> number_native_value n' \<le> TEMP_MAX"
    and "async_set_native_value v n = Inr (n', es) \<Longrightarrow>
           TEMP_MIN \<le> number_native_value n' \<and> number_native_value n' \<le> TEMP_MAX"
  using assms
  by (auto simp add: number_message_received_def async_set_native_value_def Let_def
      split: if_splits sum.splits)

text \<open>
  The number entity does not clamp: its command drops a value that rounds outside the
  range, publishing nothing.
\<close>

lemma number_command_out_of_range:
  "int_round v = Inr k \<Longrightarrow> k < TEMP_MIN \<or> TEMP_MAX < k \<Longrightarrow>
   async_set_native_value v n = Inr (n, [])"
  by (auto simp add: async_set_native_value_def)

text \<open>
  C5. The displayed target temperature should always be an integer in \<open>[16, 30]\<close>. The
  outbound command keeps it so (\<open>outbound_target_temperature_valid\<close>), and the number
  entity checks the range on both paths (\<open>number_value_in_range\<close>), but the climate
  entity's inbound handler stores whatever \<open>float(payload)\<close> returns: showing 22, it shows
  35 after the payload \<open>"35"\<close> on \<open>temp_comfort_out\<close>.
\<close>

theorem inbound_target_temperature_not_validated:
  "target_temperature_received float_of_ascii ''35'' example_climate =
     Inr (example_climate\<lparr>attr_target_temperature := Finite 35\<rparr>, [WriteState]) \<and>
   valid_target_temperature (attr_target_temperature example_climate) \<and>
   \<not> valid_target_temperature (Finite 35)"
  by (simp add: target_temperature_received_def float_of_ascii_35 example_climate_ready
      TEMP_MAX_def TEMP_MIN_def)
     (simp add: example_climate_def TEMP_MAX_def TEMP_MIN_def)

section \<open>Malformed inbound payloads\<close>

lemma map_of_None_iff: "k \<notin> fst ` set d \<Longrightarrow> map_of d k = None"
  by (simp add: map_of_eq_None_iff)

text \<open>
  C8. A temperature sensor that is available and receives a payload on which \<open>float\<close>
  raises ValueError or TypeError shows unknown and writes its state, and no exception
  leaves the handler; \<open>"abc"\<close> is such a payload. The mode selector, the fan selector and
  the discrete handlers of the climate entity leave everything as it was on a payload
  that is not a key of their table, and the switch keeps its state on a payload that is
  neither \<open>"1"\<close> nor \<open>"0"\<close> (it still writes its unchanged state).
\<close>

theorem malformed_payload_policy:
  "(available t \<and> (float_of payload = Inl ValueError \<or> float_of payload = Inl TypeError) \<longrightarrow>
      sensor_message_received float_of payload t =
        Inr (t\<lparr>sensor_native_value := None\<rparr>, safe_async_write_ha_state t)) \<and>
   float_of_ascii ''abc'' = Inl ValueError \<and>
   (available t \<longrightarrow>
      sensor_message_received float_of_ascii ''abc'' t =
        Inr (t\<lparr>sensor_native_value := None\<rparr>, safe_async_write_ha_state t)) \<and>
   (payload \<notin> fst ` set MODE_SELECT_OPTIONS \<longrightarrow> mode_message_received payload m = (m, [])) \<and>
   (payload \<notin> fst ` set FAN_SELECT_OPTIONS \<longrightarrow> fan_message_received payload f = (f, [])) \<and>
   (payload \<noteq> BLINDS_ON \<and> payload \<noteq> BLINDS_OFF \<longrightarrow>
      switch_message_received payload b = (b, if available b then safe_async_write_ha_state b else [])) \<and>
   (payload \<notin> fst ` set MQTT_TO_HVAC_MODE \<longrightarrow> mode_received payload c = (c, [])) \<and>
   (payload \<notin> fst ` set MQTT_TO_HA_FAN \<longrightarrow> fan_speed_received payload c = (c, [])) \<and>
   (payload \<notin> fst ` set MQTT_TO_HA_SWING \<longrightarrow> swing_received payload c = (c, []))"
proof -
  have sensor: "sensor_message_received fo p t =
      Inr (t\<lparr>sensor_native_value := None\<rparr>, safe_async_write_ha_state t)"
    if "available t" and "fo p = Inl ValueError \<or> fo p = Inl TypeError" for fo p
    using that by (auto simp add: sensor_message_received_def safe_async_write_ha_state_def)
  show ?thesis
    using sensor [of float_of payload] sensor [of float_of_ascii "''abc''"]
    by (auto simp add: float_of_ascii_abc mode_message_received_def fan_message_received_def
        switch_message_received_def mode_received_def fan_speed_received_def swing_received_def
        map_of_None_iff)
qed


theorem malformed_payload_policy_witness:
  "available example_sensor \<and> float_of_ascii ''abc'' = Inl ValueError \<and>
   sensor_message_received float_of_ascii ''abc'' example_sensor =
     Inr (example_sensor\<lparr>sensor_native_value := None\<rparr>, [WriteState]) \<and>
   ''abc'' \<notin> fst ` set MODE_SELECT_OPTIONS \<and>
   mode_message_received ''abc'' example_mode_select = (example_mode_select, []) \<and>
   ''abc'' \<notin> fst ` set FAN_SELECT_OPTIONS \<and>
   fan_message_received ''abc'' example_fan_select = (example_fan_select, []) \<and>
   ''abc'' \<noteq> BLINDS_ON \<and> ''abc'' \<noteq> BLINDS_OFF \<and>
   switch_message_received ''abc'' example_switch = (example_switch, [WriteState]) \<and>
   ''abc'' \<notin> fst ` set MQTT_TO_HVAC_MODE \<and>
   mode_received ''abc'' example_climate = (example_climate, []) \<and>
   ''abc'' \<notin> fst ` set MQTT_TO_HA_FAN \<and>
   fan_speed_received ''abc'' example_climate = (example_climate, []) \<and>
   ''abc'' \<notin> fst ` set MQTT_TO_HA_SWING \<and>
   swing_received ''abc'' example_climate = (example_climate, [])"
proof -
  have av: "available example_sensor" "available example_switch"
    by (simp_all add: example_sensor_def example_switch_def)
  have wr: "safe_async_write_ha_state example_sensor = [WriteState]"
    "safe_async_write_ha_state example_switch = [WriteState]"
    by (simp_all add: safe_async_write_ha_state_def example_sensor_def example_switch_def)
  have no: "''abc'' \<notin> fst ` set MODE_SELECT_OPTIONS" "''abc'' \<notin> fst ` set FAN_SELECT_OPTIONS"
    "''abc'' \<noteq> BLINDS_ON" "''abc'' \<noteq> BLINDS_OFF"
    "''abc'' \<notin> fst ` set MQTT_TO_HVAC_MODE" "''abc'' \<notin> fst ` set MQTT_TO_HA_FAN"
    "''abc'' \<notin> fst ` set MQTT_TO_HA_SWING"
    by (simp_all add: MODE_SELECT_OPTIONS_def FAN_SELECT_OPTIONS_def MODE_MAPPING_def
        FAN_SPEEDS_def dict_of_def BLINDS_ON_def BLINDS_OFF_def MQTT_TO_HVAC_MODE_def
        MQTT_TO_HA_FAN_eq MQTT_TO_HA_SWING_eq)
  from malformed_payload_policy
    [of example_sensor float_of_ascii "''abc''" example_mode_select example_fan_select
        example_switch example_climate]
    av wr no
  show ?thesis by simp
qed

text \<open>
  The climate entity is not a sensor: its two temperature handlers catch ValueError and
  keep the value shown before.
\<close>

lemma climate_temperature_received_ValueError:
  "float_of payload = Inl ValueError \<Longrightarrow>
   temperature_received float_of payload c = Inr (c, []) \<and>
   target_temperature_received float_of payload c = Inr (c, [])"
  by (simp add: temperature_received_def target_temperature_received_def)

end
